theory Spec2Isabelle
  imports Main "HOL-Library.Word"
begin

section \<open>JavaScript values\<close>

text \<open>
  The scorecard generator is JavaScript. A property that was never assigned reads as
  \<open>undefined\<close>, several fields are documented as nullable, and arithmetic on
  \<open>undefined\<close> gives \<open>NaN\<close>. These three outcomes are kept apart from ordinary
  values. Every number the modelled code handles is an integer or \<open>NaN\<close>.
\<close>

datatype jsnumber = NaN | Num int

datatype 'a jsval = Undefined | Null | Val 'a

datatype error = TypeError | RangeError | AttemptsError | SubsetLengthError

text \<open>Reading a key of an object literal: a missing key reads as \<open>undefined\<close>.\<close>

definition lookup :: "('k \<times> 'v jsval) list \<Rightarrow> 'k \<Rightarrow> 'v jsval" where
  "lookup tbl k = (case map_of tbl k of None \<Rightarrow> Undefined | Some v \<Rightarrow> v)"

text \<open>A nullable field of the data model (\<open>None\<close> is \<open>null\<close>) as a JavaScript value.\<close>

definition nullable :: "'a option \<Rightarrow> 'a jsval" where
  "nullable x = (case x of None \<Rightarrow> Null | Some v \<Rightarrow> Val v)"

text \<open>ToNumber, as the arithmetic operators apply it to their operands.\<close>

definition toNumber :: "jsnumber jsval \<Rightarrow> jsnumber" where
  "toNumber v = (case v of Undefined \<Rightarrow> NaN | Null \<Rightarrow> Num 0 | Val n \<Rightarrow> n)"

fun minusNum :: "jsnumber \<Rightarrow> jsnumber \<Rightarrow> jsnumber" where
  "minusNum (Num a) (Num b) = Num (a - b)"
| "minusNum _ _ = NaN"

subsection \<open>Numbers as text\<close>

definition digitChar :: "nat \<Rightarrow> char" where
  "digitChar d = ''0123456789'' ! (d mod 10)"

fun decimal :: "nat \<Rightarrow> string" where
  "decimal n = (if n < 10 then [digitChar n] else decimal (n div 10) @ [digitChar (n mod 10)])"

declare decimal.simps [simp del]

definition intToString :: "int \<Rightarrow> string" where
  "intToString i = (if i < 0 then ''-'' @ decimal (nat (- i)) else decimal (nat i))"

definition numberToString :: "jsnumber \<Rightarrow> string" where
  "numberToString n = (case n of NaN \<Rightarrow> ''NaN'' | Num i \<Rightarrow> intToString i)"

text \<open>What a template literal \<open>`${v}`\<close> inserts for a value.\<close>

definition template :: "('a \<Rightarrow> string) \<Rightarrow> 'a jsval \<Rightarrow> string" where
  "template shw v = (case v of Undefined \<Rightarrow> ''undefined'' | Null \<Rightarrow> ''null'' | Val x \<Rightarrow> shw x)"

text \<open>\<open>Array.prototype.join\<close> on an array of strings.\<close>

fun join :: "string \<Rightarrow> string list \<Rightarrow> string" where
  "join sep [] = ''''"
| "join sep [x] = x"
| "join sep (x # y # ys) = x @ sep @ join sep (y # ys)"

section \<open>Scorecard records (sc\_data.js)\<close>

datatype SCType = competitor | roundBlank | formatBlank

text \<open>
  \<open>CumulRoundInfo\<close>: the event name is a table read (\<open>undefined\<close> for an unknown
  event id) and the round is the result of \<open>Number(...)\<close>.
\<close>

record CumulRoundInfo =
  cri_eventId :: string
  cri_eventName :: "string jsval"
  cri_round :: jsnumber
  cri_numRounds :: nat

text \<open>
  \<open>SCData\<close>, field by field as the class declares them. \<open>None\<close> is \<open>null\<close>, which
  the round-blank factory stores in the person and group fields. A person's name is a
  sequence of UTF-16 code units, since the name splitter indexes and slices it by code
  unit. The class declares no \<open>groupRoomAbbr\<close> field and no code assigns one.
\<close>

record SCData =
  compName :: string
  registrantId :: "nat option"
  newCompetitor :: "bool option"
  wcaId :: "string option"
  personName :: "16 word list option"
  eventId :: string
  eventName :: "string jsval"
  roundNum :: nat
  numRounds :: nat
  format :: string
  cutoffCentisec :: "nat option"
  cutoffAttempts :: "nat option"
  timeLimit :: "nat option"
  cumulRoundInfos :: "CumulRoundInfo list"
  groupNum :: "jsnumber jsval"
  groupRoom :: "string option"
  numRooms :: "nat option"
  scType :: SCType

section \<open>Presentation data (sc\_pdf.js, class SCPDFData)\<close>

text \<open>
  Every field of a fresh \<open>SCPDFData\<close> object is \<open>undefined\<close>; the private setters
  assign them one group at a time, so each setter is a function from the object to the
  updated object.
\<close>

record SCPDFData =
  pdf_type :: "SCType jsval"
  pdf_compName :: "string jsval"
  pdf_registrantId :: "string jsval"
  pdf_wcaId :: "string jsval"
  personNameRoman :: "16 word list jsval"
  personNameTrans :: "16 word list jsval"
  eventAndRoundText :: "string jsval"
  attemptsPreCutoff :: "jsnumber jsval"
  attemptsPostCutoff :: "jsnumber jsval"
  cutoffText :: "string jsval"
  timeLimitStartText :: "string jsval"
  timeLimitEndText :: "string jsval"
  group :: "string jsval"

definition newSCPDFData :: SCPDFData where
  "newSCPDFData =
     \<lparr>pdf_type = Undefined, pdf_compName = Undefined, pdf_registrantId = Undefined,
      pdf_wcaId = Undefined, personNameRoman = Undefined, personNameTrans = Undefined,
      eventAndRoundText = Undefined, attemptsPreCutoff = Undefined,
      attemptsPostCutoff = Undefined, cutoffText = Undefined,
      timeLimitStartText = Undefined, timeLimitEndText = Undefined, group = Undefined\<rparr>"

definition formatToAttempts :: "(string \<times> jsnumber jsval) list" where
  "formatToAttempts =
     [(''a'', Val (Num 5)), (''m'', Val (Num 3)), (''1'', Val (Num 1)),
      (''2'', Val (Num 2)), (''3'', Val (Num 3)), (''5'', Val (Num 5))]"

definition formatToCutoffAttempts :: "(string \<times> jsnumber jsval) list" where
  "formatToCutoffAttempts =
     [(''a'', Val (Num 2)), (''m'', Val (Num 1)), (''1'', Null),
      (''2'', Null), (''3'', Null), (''5'', Null)]"

subsection \<open>Durations\<close>

text \<open>
  \<open>#getTimeText\<close> receives a whole, non-negative number of centiseconds (a cutoff or
  time limit of the document, or \<open>null\<close>, which its divisions read as 0). Its three
  components are multiples of one hundredth, so a component is represented by its number
  of hundredths: hours and minutes are whole (\<open>Math.trunc\<close>), seconds are
  \<open>(totalCentisec / 100) % 60\<close>. On this representation \<open>value === 0\<close> is
  \<open>v = 0\<close>, \<open>value === 1\<close> is \<open>v = 100\<close>, \<open>Number.isInteger\<close> is divisibility
  by 100, \<open>String(value)\<close> prints the whole part and \<open>toFixed(2)\<close> prints the whole
  part, a point and two digits. The source computes in double precision; for durations
  below \<open>2^31\<close> centiseconds the quotients are exact or off by far less than half a
  hundredth, which neither the comparisons nor the two printed decimals can show.
\<close>

type_synonym hundredths = nat

definition isInteger :: "hundredths \<Rightarrow> bool" where
  "isInteger v = (v mod 100 = 0)"

definition wholeToString :: "hundredths \<Rightarrow> string" where
  "wholeToString v = decimal (v div 100)"

definition toFixed2 :: "hundredths \<Rightarrow> string" where
  "toFixed2 v = decimal (v div 100) @ ''.'' @ [digitChar (v mod 100 div 10), digitChar (v mod 10)]"

definition getTimeTextPart :: "hundredths \<Rightarrow> string \<Rightarrow> string" where
  "getTimeTextPart val unit =
     (if val = 0 then ''''
      else (let valueText = (if isInteger val then wholeToString val else toFixed2 val);
                unitText = (if val = 100 then unit else unit @ ''s'')
            in valueText @ '' '' @ unitText))"

definition getTimeText :: "nat \<Rightarrow> string" where
  "getTimeText totalCentisec =
     (let hours = 100 * (totalCentisec div (100 * 60 * 60));
          minutes = 100 * ((totalCentisec div (100 * 60)) mod 60);
          seconds = totalCentisec mod (100 * 60);
          timeParts = [(hours, ''hour''), (minutes, ''minute''), (seconds, ''second'')]
      in join '' '' (filter (\<lambda>x. x \<noteq> '''')
           (map (\<lambda>x. getTimeTextPart (fst x) (snd x)) timeParts)))"

text \<open>
  The specification's wording of the same function, for comparison: keep the non-zero
  components, render each as value, space, unit (plural unless the value is 1), and put
  single spaces between them.
\<close>

definition renderComponent :: "hundredths \<times> string \<Rightarrow> string" where
  "renderComponent c =
     (if isInteger (fst c) then wholeToString (fst c) else toFixed2 (fst c)) @ '' '' @
     (if fst c = 100 then snd c else snd c @ ''s'')"

definition humanDuration :: "nat \<Rightarrow> string" where
  "humanDuration cs =
     join '' '' (map renderComponent (filter (\<lambda>c. fst c \<noteq> 0)
       [(100 * (cs div 360000), ''hour''),
        (100 * (cs div 6000 mod 60), ''minute''),
        (cs mod 6000, ''second'')]))"

subsection \<open>Sequencing a step that may throw\<close>

definition andThen :: "error + 'a \<Rightarrow> ('a \<Rightarrow> error + 'b) \<Rightarrow> error + 'b" where
  "andThen m f = (case m of Inl e \<Rightarrow> Inl e | Inr x \<Rightarrow> f x)"

subsection \<open>Person data and name splitting\<close>

text \<open>
  \<open>String.prototype.trim\<close> removes white space and line terminators from both ends:
  TAB, LF, VT, FF, CR, SPACE, NBSP, the Unicode space separators, LS, PS and the byte
  order mark, each a single code unit.
\<close>

definition whiteSpace :: "16 word list" where
  "whiteSpace =
     [0x0009, 0x000A, 0x000B, 0x000C, 0x000D, 0x0020, 0x00A0, 0x1680,
      0x2000, 0x2001, 0x2002, 0x2003, 0x2004, 0x2005, 0x2006, 0x2007,
      0x2008, 0x2009, 0x200A, 0x2028, 0x2029, 0x202F, 0x205F, 0x3000, 0xFEFF]"

definition isWhiteSpace :: "16 word \<Rightarrow> bool" where
  "isWhiteSpace c = (c \<in> set whiteSpace)"

definition trim :: "16 word list \<Rightarrow> 16 word list" where
  "trim s = rev (dropWhile isWhiteSpace (rev (dropWhile isWhiteSpace s)))"

text \<open>\<open>indexOf\<close> for a one-character search string: the first index, or \<open>-1\<close>.\<close>

fun indexOf :: "'a list \<Rightarrow> 'a \<Rightarrow> int" where
  "indexOf [] c = - 1"
| "indexOf (x # xs) c =
     (if x = c then 0 else (let i = indexOf xs c in if i = - 1 then - 1 else i + 1))"

text \<open>
  \<open>slice(start, stop)\<close> of strings and arrays: a negative index counts from the end,
  both are clamped to the length, and an empty range gives the empty result.
\<close>

definition sliceOf :: "'a list \<Rightarrow> int \<Rightarrow> int \<Rightarrow> 'a list" where
  "sliceOf s start stop =
     (let len = int (length s);
          from = (if start < 0 then max (len + start) 0 else min start len);
          to = (if stop < 0 then max (len + stop) 0 else min stop len)
      in take (nat (to - from)) (drop (nat from) s))"

text \<open>The code unit of \<open>(\<close>.\<close>

definition openPar :: "16 word" where
  "openPar = 0x0028"

definition setNameData :: "16 word list \<Rightarrow> SCPDFData \<Rightarrow> SCPDFData" where
  "setNameData scDataName this =
     (let name = trim scDataName;
          openParInd = indexOf name openPar
      in if openParInd = - 1
         then this\<lparr>personNameRoman := Val name, personNameTrans := Null\<rparr>
         else this\<lparr>personNameRoman := Val (trim (sliceOf name 0 openParInd)),
                    personNameTrans := Val (sliceOf name (openParInd + 1) (- 1))\<rparr>)"

text \<open>
  \<open>#setPersonData\<close>. \<open>String(null)\<close> is \<open>"null"\<close>; a \<open>null\<close> flag is falsy; calling
  \<open>trim\<close> on a \<open>null\<close> name throws a TypeError.
\<close>

definition setPersonData :: "SCData \<Rightarrow> SCPDFData \<Rightarrow> error + SCPDFData" where
  "setPersonData scData this =
     (let this1 = this\<lparr>pdf_registrantId := Val (template decimal (nullable (registrantId scData)))\<rparr>;
          this2 = this1\<lparr>pdf_wcaId :=
                    (if newCompetitor scData = Some True then Val ''New Competitor''
                     else nullable (wcaId scData))\<rparr>
      in case personName scData of
           None \<Rightarrow> Inl TypeError
         | Some name \<Rightarrow> Inr (setNameData name this2))"

subsection \<open>Event and round text\<close>

text \<open>Strict equality of two numbers: \<open>NaN\<close> equals nothing.\<close>

fun strictEq :: "jsnumber \<Rightarrow> jsnumber \<Rightarrow> bool" where
  "strictEq (Num a) (Num b) = (a = b)"
| "strictEq _ _ = False"

definition getEventAndRoundText :: "string jsval \<Rightarrow> jsnumber \<Rightarrow> jsnumber \<Rightarrow> string" where
  "getEventAndRoundText evName rnd nRounds =
     (let roundText = (if strictEq rnd nRounds then ''Final'' else ''Round '' @ numberToString rnd)
      in template id evName @ '' '' @ roundText)"

definition setEventAndRoundText :: "SCData \<Rightarrow> SCPDFData \<Rightarrow> SCPDFData" where
  "setEventAndRoundText scData this =
     this\<lparr>eventAndRoundText :=
       Val (getEventAndRoundText (eventName scData) (Num (int (roundNum scData)))
              (Num (int (numRounds scData))))\<rparr>"

subsection \<open>Cutoff\<close>

definition getCutoffText :: "jsnumber jsval \<Rightarrow> nat \<Rightarrow> error + string" where
  "getCutoffText attempts totalCentisec =
     andThen
       (if attempts = Val (Num 1) then Inr ''1''
        else if attempts = Val (Num 2) then Inr ''1 or 2''
        else Inl AttemptsError)
       (\<lambda>attemptsText.
          let timeText = getTimeText totalCentisec
          in Inr (''Continue if '' @ attemptsText @ '' < '' @ timeText))"

text \<open>A nullable count of the record as a JavaScript number.\<close>

definition count :: "nat option \<Rightarrow> jsnumber jsval" where
  "count n = nullable (map_option (\<lambda>k. Num (int k)) n)"

definition setCutoffData :: "SCData \<Rightarrow> SCPDFData \<Rightarrow> error + SCPDFData" where
  "setCutoffData scData this =
     (let totalAttempts = lookup formatToAttempts (format scData)
      in case cutoffCentisec scData of
           Some centisec \<Rightarrow>
             (let pre = count (cutoffAttempts scData);
                  post = Val (minusNum (toNumber totalAttempts) (toNumber pre))
              in andThen (getCutoffText (count (cutoffAttempts scData)) centisec)
                   (\<lambda>text. Inr (this\<lparr>attemptsPreCutoff := pre, attemptsPostCutoff := post,
                                       cutoffText := Val text\<rparr>)))
         | None \<Rightarrow>
             if lookup formatToCutoffAttempts (format scData) \<noteq> Null
             then (let pre = lookup formatToCutoffAttempts (format scData);
                       post = Val (minusNum (toNumber totalAttempts) (toNumber pre))
                   in Inr (this\<lparr>attemptsPreCutoff := pre, attemptsPostCutoff := post,
                                cutoffText := Val ''N/A''\<rparr>))
             else Inr (this\<lparr>attemptsPreCutoff := totalAttempts, attemptsPostCutoff := Null,
                            cutoffText := Null\<rparr>))"

subsection \<open>Time limit\<close>

definition getCumulRoundText :: "CumulRoundInfo list \<Rightarrow> string" where
  "getCumulRoundText infos =
     (if length infos < 2 then ''''
      else (let textArr = map (\<lambda>x. getEventAndRoundText (cri_eventName x) (cri_round x)
                                        (Num (int (cri_numRounds x)))) infos
            in if length infos = 2 then '' for '' @ join '' and '' textArr
               else '', shared by '' @ decimal (length infos) @ '' events''))"

text \<open>The sign \<open>\<ge>\<close> of the source text, as the three bytes of its UTF-8 encoding.\<close>

definition geqSign :: string where
  "geqSign = [CHR 0xE2, CHR 0x89, CHR 0xA5]"

text \<open>
  A \<open>null\<close> time limit is passed on to \<open>#getTimeText\<close>, whose divisions read it as 0.
\<close>

definition centisecOf :: "nat option \<Rightarrow> nat" where
  "centisecOf t = (case t of None \<Rightarrow> 0 | Some c \<Rightarrow> c)"

definition setTimeLimitData :: "SCData \<Rightarrow> SCPDFData \<Rightarrow> SCPDFData" where
  "setTimeLimitData scData this =
     (if eventId scData = ''333mbf''
      then this\<lparr>timeLimitStartText := Val ''Time limit per solve'',
                 timeLimitEndText := Val ''10 minutes per cube, up to 1 hour''\<rparr>
      else if length (cumulRoundInfos scData) = 0
      then this\<lparr>timeLimitStartText := Val ''Time limit per solve'',
                 timeLimitEndText :=
                   Val (''DNF if '' @ geqSign @ '' '' @ getTimeText (centisecOf (timeLimit scData)))\<rparr>
      else this\<lparr>timeLimitStartText := Val ''Cumulative time limit'',
                 timeLimitEndText :=
                   Val (getTimeText (centisecOf (timeLimit scData)) @
                        getCumulRoundText (cumulRoundInfos scData))\<rparr>)"

subsection \<open>Group label and the whole record\<close>

text \<open>
  \<open>#setGroupData\<close> reads \<open>scData.groupRoomAbbr\<close>. \<open>SCData\<close> has no such field and
  neither factory assigns one, so the read gives \<open>undefined\<close> for every record.
\<close>

definition groupRoomAbbr :: "SCData \<Rightarrow> string jsval" where
  "groupRoomAbbr scData = Undefined"

definition setGroupData :: "SCData \<Rightarrow> SCPDFData \<Rightarrow> SCPDFData" where
  "setGroupData scData this =
     this\<lparr>group := Val (template id (groupRoomAbbr scData) @
                        template numberToString (groupNum scData))\<rparr>"

definition setEventData :: "SCData \<Rightarrow> SCPDFData \<Rightarrow> error + SCPDFData" where
  "setEventData scData this =
     andThen (setCutoffData scData (setEventAndRoundText scData this))
       (\<lambda>this'. Inr (setTimeLimitData scData this'))"

definition setCompetitorScData :: "SCData \<Rightarrow> SCPDFData \<Rightarrow> error + SCPDFData" where
  "setCompetitorScData scData this =
     andThen (setPersonData scData this)
       (\<lambda>this1. andThen (setEventData scData this1)
          (\<lambda>this2. Inr (setGroupData scData this2)))"

definition setRoundBlankScData :: "SCData \<Rightarrow> SCPDFData \<Rightarrow> error + SCPDFData" where
  "setRoundBlankScData scData this = setEventData scData this"

definition fromScData :: "SCData \<Rightarrow> error + SCPDFData" where
  "fromScData scData =
     (let scPdfData = newSCPDFData\<lparr>pdf_type := Val (scType scData),
                                    pdf_compName := Val (compName scData)\<rparr>
      in case scType scData of
           competitor \<Rightarrow> setCompetitorScData scData scPdfData
         | roundBlank \<Rightarrow> setRoundBlankScData scData scPdfData
         | formatBlank \<Rightarrow> Inr scPdfData)"

section \<open>Built-in operations taken as parameters\<close>

text \<open>
  Two computations of the language itself are not reproduced: \<open>Number(x)\<close> applied to
  a string (or \<open>undefined\<close>), and \<open>Math.floor(n * (pct / 100))\<close>, a product of
  floating-point numbers. Every function that reaches one of them takes them from a
  \<open>runtime\<close> record, and every statement about such a function holds for any runtime.
\<close>

record runtime =
  rt_Number :: "string jsval \<Rightarrow> jsnumber"
  rt_floorPercent :: "jsnumber \<Rightarrow> nat \<Rightarrow> jsnumber"

subsection \<open>Arithmetic on numbers\<close>

fun plusNum :: "jsnumber \<Rightarrow> jsnumber \<Rightarrow> jsnumber" where
  "plusNum (Num a) (Num b) = Num (a + b)"
| "plusNum _ _ = NaN"

fun timesNum :: "jsnumber \<Rightarrow> jsnumber \<Rightarrow> jsnumber" where
  "timesNum (Num a) (Num b) = Num (a * b)"
| "timesNum _ _ = NaN"

text \<open>The remainder operator \<open>%\<close>: the result takes the sign of the dividend.\<close>

fun remNum :: "jsnumber \<Rightarrow> jsnumber \<Rightarrow> jsnumber" where
  "remNum (Num a) (Num b) =
     (if b = 0 then NaN else Num (sgn a * (\<bar>a\<bar> mod \<bar>b\<bar>)))"
| "remNum _ _ = NaN"

subsection \<open>Strings and arrays\<close>

text \<open>
  \<open>String.prototype.split\<close> with a separator string: the pieces between the
  occurrences of the separator, found left to right; an empty separator splits into
  single characters.
\<close>

function splitFrom :: "string \<Rightarrow> string \<Rightarrow> string \<Rightarrow> string list" where
  "splitFrom sep cur [] = [rev cur]"
| "splitFrom sep cur (c # cs) =
     (if sep \<noteq> [] \<and> take (length sep) (c # cs) = sep
      then rev cur # splitFrom sep [] (drop (length sep) (c # cs))
      else splitFrom sep (c # cur) cs)"
  by pat_completeness auto
termination
  by (relation "measure (\<lambda>(sep, cur, rest). length rest)") auto

definition split :: "string \<Rightarrow> string \<Rightarrow> string list" where
  "split s sep = (if sep = [] then map (\<lambda>c. [c]) s else splitFrom sep [] s)"

text \<open>Reading an array element: an index past the end reads as \<open>undefined\<close>.\<close>

definition element :: "'a list \<Rightarrow> nat \<Rightarrow> 'a jsval" where
  "element xs i = (if i < length xs then Val (xs ! i) else Undefined)"

text \<open>\<open>map\<close> and \<open>flatMap\<close> with a callback that may throw: the first throw ends the call.\<close>

fun mapE :: "('a \<Rightarrow> error + 'b) \<Rightarrow> 'a list \<Rightarrow> error + 'b list" where
  "mapE f [] = Inr []"
| "mapE f (x # xs) = andThen (f x) (\<lambda>y. andThen (mapE f xs) (\<lambda>ys. Inr (y # ys)))"

definition flatMapE :: "('a \<Rightarrow> error + 'b list) \<Rightarrow> 'a list \<Rightarrow> error + 'b list" where
  "flatMapE f xs = andThen (mapE f xs) (\<lambda>yss. Inr (concat yss))"

section \<open>The competition document (wcif.js)\<close>

text \<open>
  The parsed WCIF JSON, with the properties the accessor reads. \<open>None\<close> is \<open>null\<close>.
  Property names carry a prefix for the object they belong to.
\<close>

record Cutoff =
  co_numberOfAttempts :: nat
  co_attemptResult :: nat

record TimeLimit =
  tl_centiseconds :: nat
  tl_cumulativeRoundIds :: "string list"

record AdvancementCondition =
  adv_type :: string
  adv_level :: nat

record Round =
  rd_id :: string
  rd_format :: string
  rd_cutoff :: "Cutoff option"
  rd_timeLimit :: "TimeLimit option"
  rd_advancementCondition :: "AdvancementCondition option"

record Event =
  ev_id :: string
  ev_rounds :: "Round list"

record ChildActivity =
  ca_id :: nat
  ca_activityCode :: string

record Activity =
  act_activityCode :: string
  act_childActivities :: "ChildActivity list"

record Room =
  room_name :: string
  room_activities :: "Activity list"

record Venue =
  venue_rooms :: "Room list"

record Assignment =
  as_activityId :: nat
  as_assignmentCode :: string

record Registration =
  reg_status :: string
  reg_isCompeting :: bool

record Person =
  p_registrantId :: nat
  p_name :: "16 word list"
  p_wcaId :: "string option"
  p_registration :: "Registration option"
  p_assignments :: "Assignment list"

record WCIF =
  compId :: string
  data_name :: string
  data_events :: "Event list"
  data_persons :: "Person list"
  data_venues :: "Venue list"

definition getCompName :: "WCIF \<Rightarrow> string" where
  "getCompName w = data_name w"

definition getEventIds :: "WCIF \<Rightarrow> string list" where
  "getEventIds w = filter (\<lambda>x. x \<noteq> ''333fm'') (map ev_id (data_events w))"

definition eventIdToName :: "(string \<times> string jsval) list" where
  "eventIdToName =
     [(''333'', Val ''3x3x3 Cube''), (''222'', Val ''2x2x2 Cube''),
      (''444'', Val ''4x4x4 Cube''), (''555'', Val ''5x5x5 Cube''),
      (''666'', Val ''6x6x6 Cube''), (''777'', Val ''7x7x7 Cube''),
      (''333bf'', Val ''3x3x3 Blindfolded''), (''333fm'', Val ''3x3x3 Fewest Moves''),
      (''333oh'', Val ''3x3x3 One-Handed''), (''clock'', Val ''Clock''),
      (''minx'', Val ''Megaminx''), (''pyram'', Val ''Pyraminx''),
      (''skewb'', Val ''Skewb''), (''sq1'', Val ''Square-1''),
      (''444bf'', Val ''4x4x4 Blindfolded''), (''555bf'', Val ''5x5x5 Blindfolded''),
      (''333mbf'', Val ''3x3x3 Multi-Blind'')]"

text \<open>
  \<open>Array.prototype.find\<close> gives \<open>undefined\<close> where nothing matches; reading a
  property of \<open>undefined\<close> throws a TypeError.
\<close>

definition getEventObj :: "WCIF \<Rightarrow> string \<Rightarrow> Event option" where
  "getEventObj w evId = find (\<lambda>x. ev_id x = evId) (data_events w)"

definition getRoundObj :: "WCIF \<Rightarrow> string \<Rightarrow> nat \<Rightarrow> error + Round option" where
  "getRoundObj w evId rnd =
     (case getEventObj w evId of
        None \<Rightarrow> Inl TypeError
      | Some eventObj \<Rightarrow>
          Inr (find (\<lambda>x. rd_id x = evId @ ''-r'' @ decimal rnd) (ev_rounds eventObj)))"

definition getRoundFromRoundId :: "runtime \<Rightarrow> string \<Rightarrow> jsnumber" where
  "getRoundFromRoundId rt roundId = rt_Number rt (element (split roundId ''-r'') 1)"

text \<open>The first piece of a split always exists; the empty case is there for totality.\<close>

definition getEventIdFromRoundId :: "string \<Rightarrow> string" where
  "getEventIdFromRoundId roundId = (case split roundId ''-r'' of [] \<Rightarrow> '''' | x # _ \<Rightarrow> x)"

definition getActCode :: "string \<Rightarrow> nat \<Rightarrow> string" where
  "getActCode evId rnd =
     (if evId = ''333mbf'' then evId @ ''-r'' @ decimal rnd @ ''-a1''
      else evId @ ''-r'' @ decimal rnd)"

definition getNumRounds :: "WCIF \<Rightarrow> string \<Rightarrow> error + nat" where
  "getNumRounds w evId =
     (case getEventObj w evId of
        None \<Rightarrow> Inl TypeError
      | Some eventObj \<Rightarrow> Inr (length (ev_rounds eventObj)))"

definition getRoomObjs :: "WCIF \<Rightarrow> Room list" where
  "getRoomObjs w = concat (map venue_rooms (data_venues w))"

definition getRoomNames :: "WCIF \<Rightarrow> string list" where
  "getRoomNames w = map room_name (getRoomObjs w)"

definition getNumRooms :: "WCIF \<Rightarrow> nat" where
  "getNumRooms w = length (getRoomObjs w)"

definition getTopLevelActObjs :: "WCIF \<Rightarrow> Activity list" where
  "getTopLevelActObjs w = concat (map room_activities (getRoomObjs w))"

definition getGroupActIds :: "WCIF \<Rightarrow> string \<Rightarrow> nat \<Rightarrow> nat list" where
  "getGroupActIds w evId rnd =
     (let roundId = getActCode evId rnd;
          actObjs = getTopLevelActObjs w
      in map ca_id (concat (map act_childActivities
           (filter (\<lambda>x. act_activityCode x = roundId) actObjs))))"

definition getGroupActObjs :: "WCIF \<Rightarrow> ChildActivity list" where
  "getGroupActObjs w = concat (map act_childActivities (getTopLevelActObjs w))"

definition competingInAct :: "nat \<Rightarrow> Person \<Rightarrow> bool" where
  "competingInAct actId personObj =
     list_ex (\<lambda>x. as_activityId x = actId \<and> as_assignmentCode x = ''competitor'')
       (p_assignments personObj)"

definition getCompetitorsFromActId :: "WCIF \<Rightarrow> nat \<Rightarrow> nat list" where
  "getCompetitorsFromActId w actId =
     map p_registrantId (filter (competingInAct actId) (data_persons w))"

definition getGroupNum :: "runtime \<Rightarrow> WCIF \<Rightarrow> nat \<Rightarrow> error + jsnumber" where
  "getGroupNum rt w actId =
     (case find (\<lambda>x. ca_id x = actId) (getGroupActObjs w) of
        None \<Rightarrow> Inl TypeError
      | Some actObj \<Rightarrow>
          (let actCode = ca_activityCode actObj
           in case split actCode ''-a'' of
                [] \<Rightarrow> Inl TypeError
              | actCodeNoAttempt # _ \<Rightarrow>
                  (let groupString = element (split actCodeNoAttempt ''-g'') 1
                   in Inr (rt_Number rt groupString))))"

definition roomHasActId :: "nat \<Rightarrow> Room \<Rightarrow> bool" where
  "roomHasActId actId roomObj =
     list_ex (\<lambda>x. ca_id x = actId)
       (concat (map act_childActivities (room_activities roomObj)))"

definition getGroupRoom :: "WCIF \<Rightarrow> nat \<Rightarrow> error + string" where
  "getGroupRoom w actId =
     (case find (roomHasActId actId) (getRoomObjs w) of
        None \<Rightarrow> Inl TypeError
      | Some roomObj \<Rightarrow> Inr (room_name roomObj))"

text \<open>A round object that was not found is \<open>undefined\<close>; reading its property throws.\<close>

definition roundProperty :: "WCIF \<Rightarrow> string \<Rightarrow> nat \<Rightarrow> (Round \<Rightarrow> 'a) \<Rightarrow> error + 'a" where
  "roundProperty w evId rnd prop =
     andThen (getRoundObj w evId rnd)
       (\<lambda>r. case r of None \<Rightarrow> Inl TypeError | Some roundObj \<Rightarrow> Inr (prop roundObj))"

definition getFormat :: "WCIF \<Rightarrow> string \<Rightarrow> nat \<Rightarrow> error + string" where
  "getFormat w evId rnd = roundProperty w evId rnd rd_format"

definition getCutoffCentisec :: "WCIF \<Rightarrow> string \<Rightarrow> nat \<Rightarrow> error + nat option" where
  "getCutoffCentisec w evId rnd =
     (if evId = ''333mbf'' then Inr None
      else andThen (roundProperty w evId rnd rd_cutoff)
             (\<lambda>cutoffObj. Inr (case cutoffObj of None \<Rightarrow> None
                                 | Some c \<Rightarrow> Some (co_attemptResult c))))"

definition getCutoffAttempts :: "WCIF \<Rightarrow> string \<Rightarrow> nat \<Rightarrow> error + nat option" where
  "getCutoffAttempts w evId rnd =
     (if evId = ''333mbf'' then Inr None
      else andThen (roundProperty w evId rnd rd_cutoff)
             (\<lambda>cutoffObj. Inr (case cutoffObj of None \<Rightarrow> None
                                 | Some c \<Rightarrow> Some (co_numberOfAttempts c))))"

definition getTimeLimit :: "WCIF \<Rightarrow> string \<Rightarrow> nat \<Rightarrow> error + nat option" where
  "getTimeLimit w evId rnd =
     andThen (roundProperty w evId rnd rd_timeLimit)
       (\<lambda>t. Inr (case t of None \<Rightarrow> None | Some l \<Rightarrow> Some (tl_centiseconds l)))"

text \<open>
  The count computed alike in \<open>groupsAreAssigned\<close> and \<open>getNumAdvancingToRound\<close>: the
  length of the concatenated competitor lists of the round's group activities.
\<close>

definition numAssigned :: "WCIF \<Rightarrow> string \<Rightarrow> nat \<Rightarrow> nat" where
  "numAssigned w evId rnd =
     length (concat (map (\<lambda>actId. getCompetitorsFromActId w actId) (getGroupActIds w evId rnd)))"

definition groupsAreAssigned :: "WCIF \<Rightarrow> string \<Rightarrow> nat \<Rightarrow> bool" where
  "groupsAreAssigned w evId rnd = (numAssigned w evId rnd > 0)"

text \<open>
  The first loop of \<open>getNumAdvancingToRound\<close>, from \<open>i\<close> down to 1, with the stack of
  percentages pushed so far (\<open>push\<close> appends). It ends at a \<open>break\<close> with the base
  number, or at \<open>i = 0\<close> with the base number still \<open>undefined\<close>.
\<close>

fun baseLoop :: "WCIF \<Rightarrow> string \<Rightarrow> nat \<Rightarrow> nat list \<Rightarrow> error + (jsnumber jsval \<times> nat list)" where
  "baseLoop w evId 0 pctAdvancingStack = Inr (Undefined, pctAdvancingStack)"
| "baseLoop w evId (Suc k) pctAdvancingStack =
     (if Suc k = 1 \<or> groupsAreAssigned w evId (Suc k)
      then Inr (Val (Num (int (numAssigned w evId (Suc k)))), pctAdvancingStack)
      else andThen (roundProperty w evId (Suc k - 1) rd_advancementCondition)
             (\<lambda>a. case a of
                     None \<Rightarrow> Inl TypeError
                   | Some advanceObj \<Rightarrow>
                       if adv_type advanceObj = ''ranking''
                       then Inr (Val (Num (int (adv_level advanceObj))), pctAdvancingStack)
                       else baseLoop w evId k (pctAdvancingStack @ [adv_level advanceObj])))"

text \<open>The second loop: \<open>pop\<close> takes the last element.\<close>

function popLoop :: "runtime \<Rightarrow> jsnumber jsval \<Rightarrow> nat list \<Rightarrow> jsnumber jsval" where
  "popLoop rt numAdvancing pctAdvancingStack =
     (if length pctAdvancingStack \<noteq> 0
      then popLoop rt (Val (rt_floorPercent rt (toNumber numAdvancing) (last pctAdvancingStack)))
             (butlast pctAdvancingStack)
      else numAdvancing)"
  by pat_completeness auto
termination
  by (relation "measure (\<lambda>(rt, n, stack). length stack)") auto

declare popLoop.simps [simp del]

definition getNumAdvancingToRound :: "runtime \<Rightarrow> WCIF \<Rightarrow> string \<Rightarrow> nat \<Rightarrow> error + jsnumber jsval" where
  "getNumAdvancingToRound rt w evId rnd =
     andThen (baseLoop w evId rnd [])
       (\<lambda>(baseNum, pctAdvancingStack). Inr (popLoop rt baseNum pctAdvancingStack))"

definition getCumulRoundIds :: "WCIF \<Rightarrow> string \<Rightarrow> nat \<Rightarrow> error + string list" where
  "getCumulRoundIds w evId rnd =
     andThen (roundProperty w evId rnd rd_timeLimit)
       (\<lambda>t. Inr (case t of None \<Rightarrow> [] | Some l \<Rightarrow> tl_cumulativeRoundIds l))"




definition getPersonObj :: "WCIF \<Rightarrow> nat \<Rightarrow> Person option" where
  "getPersonObj w regId = find (\<lambda>x. p_registrantId x = regId) (data_persons w)"

definition personProperty :: "WCIF \<Rightarrow> nat \<Rightarrow> (Person \<Rightarrow> 'a) \<Rightarrow> error + 'a" where
  "personProperty w regId prop =
     (case getPersonObj w regId of None \<Rightarrow> Inl TypeError | Some personObj \<Rightarrow> Inr (prop personObj))"

definition isNewCompetitor :: "WCIF \<Rightarrow> nat \<Rightarrow> error + bool" where
  "isNewCompetitor w regId = personProperty w regId (\<lambda>p. p_wcaId p = None)"

definition getWcaId :: "WCIF \<Rightarrow> nat \<Rightarrow> error + string option" where
  "getWcaId w regId = personProperty w regId p_wcaId"

definition getPersonName :: "WCIF \<Rightarrow> nat \<Rightarrow> error + 16 word list" where
  "getPersonName w regId = personProperty w regId p_name"

section \<open>Options (options.js)\<close>

text \<open>
  An option object as the generation pass sees it: the submit handler has overwritten
  \<open>value\<close> with the form field's content, a string (\<open>null\<close> for a missing field).
\<close>

record Option =
  inputType :: string
  opt_id :: string
  opt_value :: "string jsval"

definition RoundBlanksOption_genId :: "string \<Rightarrow> nat \<Rightarrow> string" where
  "RoundBlanksOption_genId evId rnd = ''blanks-round-'' @ evId @ ''-r'' @ decimal rnd"

text \<open>\<open>replace\<close> with a string pattern replaces the first occurrence only.\<close>

fun replaceFirst :: "char \<Rightarrow> char \<Rightarrow> string \<Rightarrow> string" where
  "replaceFirst a b [] = []"
| "replaceFirst a b (c # cs) = (if c = a then b # cs else c # replaceFirst a b cs)"

definition RoomOption_genId :: "string \<Rightarrow> string" where
  "RoomOption_genId room =
     (let roomNoSpaces = replaceFirst CHR '' '' CHR ''-'' room
      in ''room-abbr-'' @ roomNoSpaces)"

text \<open>\<open>replaceAll\<close>, which the file name of the output uses.\<close>

definition replaceAll :: "char \<Rightarrow> char \<Rightarrow> string \<Rightarrow> string" where
  "replaceAll a b s = map (\<lambda>c. if c = a then b else c) s"

section \<open>Deriving the scorecard records (sc\_data.js)\<close>

definition newCumulRoundInfo :: "runtime \<Rightarrow> WCIF \<Rightarrow> string \<Rightarrow> error + CumulRoundInfo" where
  "newCumulRoundInfo rt w roundId =
     (let evId = getEventIdFromRoundId roundId
      in andThen (getNumRounds w evId)
           (\<lambda>n. Inr \<lparr>cri_eventId = evId, cri_eventName = lookup eventIdToName evId,
                      cri_round = getRoundFromRoundId rt roundId, cri_numRounds = n\<rparr>))"

text \<open>
  The event data shared by the two factories, read in the order of the source. Every
  failing read throws a TypeError.
\<close>

definition competitorScData :: "runtime \<Rightarrow> WCIF \<Rightarrow> string \<Rightarrow> nat \<Rightarrow> nat \<Rightarrow> nat \<Rightarrow> error + SCData" where
  "competitorScData rt w evId rnd actId regId =
     andThen (isNewCompetitor w regId) (\<lambda>new.
     andThen (getWcaId w regId) (\<lambda>wca.
     andThen (getPersonName w regId) (\<lambda>pname.
     andThen (getNumRounds w evId) (\<lambda>n.
     andThen (getFormat w evId rnd) (\<lambda>fmt.
     andThen (getCutoffCentisec w evId rnd) (\<lambda>cc.
     andThen (getCutoffAttempts w evId rnd) (\<lambda>ca.
     andThen (getTimeLimit w evId rnd) (\<lambda>limit.
     andThen (getCumulRoundIds w evId rnd) (\<lambda>roundIds.
     andThen (mapE (newCumulRoundInfo rt w) roundIds) (\<lambda>infos.
     andThen (getGroupNum rt w actId) (\<lambda>gnum.
     andThen (getGroupRoom w actId) (\<lambda>groom.
       Inr \<lparr>compName = getCompName w, registrantId = Some regId, newCompetitor = Some new,
            wcaId = wca, personName = Some pname, eventId = evId,
            eventName = lookup eventIdToName evId, roundNum = rnd, numRounds = n,
            format = fmt, cutoffCentisec = cc, cutoffAttempts = ca, timeLimit = limit,
            cumulRoundInfos = infos, groupNum = Val gnum, groupRoom = Some groom,
            numRooms = Some (getNumRooms w), scType = competitor\<rparr>))))))))))))"

definition roundBlankScData :: "runtime \<Rightarrow> WCIF \<Rightarrow> string \<Rightarrow> nat \<Rightarrow> error + SCData" where
  "roundBlankScData rt w evId rnd =
     andThen (getNumRounds w evId) (\<lambda>n.
     andThen (getFormat w evId rnd) (\<lambda>fmt.
     andThen (getCutoffCentisec w evId rnd) (\<lambda>cc.
     andThen (getCutoffAttempts w evId rnd) (\<lambda>ca.
     andThen (getTimeLimit w evId rnd) (\<lambda>limit.
     andThen (getCumulRoundIds w evId rnd) (\<lambda>roundIds.
     andThen (mapE (newCumulRoundInfo rt w) roundIds) (\<lambda>infos.
       Inr \<lparr>compName = getCompName w, registrantId = None, newCompetitor = None,
            wcaId = None, personName = None, eventId = evId,
            eventName = lookup eventIdToName evId, roundNum = rnd, numRounds = n,
            format = fmt, cutoffCentisec = cc, cutoffAttempts = ca, timeLimit = limit,
            cumulRoundInfos = infos, groupNum = Null, groupRoom = None,
            numRooms = None, scType = roundBlank\<rparr>)))))))"

definition getScDataForGroup :: "runtime \<Rightarrow> WCIF \<Rightarrow> string \<Rightarrow> nat \<Rightarrow> nat \<Rightarrow> error + SCData list" where
  "getScDataForGroup rt w evId rnd actId =
     mapE (\<lambda>regId. competitorScData rt w evId rnd actId regId) (getCompetitorsFromActId w actId)"

text \<open>
  \<open>Array(n)\<close> throws a RangeError unless \<open>n\<close> is a whole number from 0 to
  \<open>2^32 - 1\<close>.
\<close>

definition newArray :: "jsnumber \<Rightarrow> error + nat" where
  "newArray n =
     (case n of
        NaN \<Rightarrow> Inl RangeError
      | Num k \<Rightarrow> if 0 \<le> k \<and> k < 2 ^ 32 then Inr (nat k) else Inl RangeError)"

definition getScDataForRoundBlanks ::
    "runtime \<Rightarrow> WCIF \<Rightarrow> (string \<rightharpoonup> Option) \<Rightarrow> string \<Rightarrow> nat \<Rightarrow> error + SCData list" where
  "getScDataForRoundBlanks rt w optionsObj evId rnd =
     (let ident = RoundBlanksOption_genId evId rnd;
          option = optionsObj ident;
          scPerPage = Num 4
      in andThen
           (if groupsAreAssigned w evId rnd
            then andThen (getNumAdvancingToRound rt w evId rnd)
                   (\<lambda>numCompetitors.
                      Inr (minusNum scPerPage (remNum (toNumber numCompetitors) scPerPage)))
            else Inr (Num 0))
           (\<lambda>numFillerBlanks.
              case option of
                None \<Rightarrow> Inl TypeError
              | Some opt \<Rightarrow>
                  (let numBlanks = plusNum numFillerBlanks
                                     (timesNum (rt_Number rt (opt_value opt)) scPerPage)
                   in andThen (newArray numBlanks)
                        (\<lambda>len. andThen (roundBlankScData rt w evId rnd)
                           (\<lambda>blank. Inr (replicate len blank))))))"

definition getScDataForRound ::
    "runtime \<Rightarrow> WCIF \<Rightarrow> (string \<rightharpoonup> Option) \<Rightarrow> string \<Rightarrow> nat \<Rightarrow> error + SCData list" where
  "getScDataForRound rt w optionsObj evId rnd =
     andThen (flatMapE (\<lambda>actId. getScDataForGroup rt w evId rnd actId) (getGroupActIds w evId rnd))
       (\<lambda>scDataArr. andThen (getScDataForRoundBlanks rt w optionsObj evId rnd)
          (\<lambda>blanks. Inr (scDataArr @ blanks)))"

text \<open>The loop of \<open>getScDataForEvent\<close> over the rounds \<open>rnd, rnd + 1, ..., n\<close>.\<close>

function roundsLoop ::
    "runtime \<Rightarrow> WCIF \<Rightarrow> (string \<rightharpoonup> Option) \<Rightarrow> string \<Rightarrow> nat \<Rightarrow> nat \<Rightarrow> SCData list
     \<Rightarrow> error + SCData list" where
  "roundsLoop rt w optionsObj evId rnd n scDataArr =
     (if rnd \<le> n
      then (case getScDataForRound rt w optionsObj evId rnd of
              Inl e \<Rightarrow> Inl e
            | Inr xs \<Rightarrow> roundsLoop rt w optionsObj evId (rnd + 1) n (scDataArr @ xs))
      else Inr scDataArr)"
  by pat_completeness auto
termination
  by (relation "measure (\<lambda>(rt, w, optionsObj, evId, rnd, n, scDataArr). n + 1 - rnd)") auto

declare roundsLoop.simps [simp del]

definition getScDataForEvent ::
    "runtime \<Rightarrow> WCIF \<Rightarrow> (string \<rightharpoonup> Option) \<Rightarrow> string \<Rightarrow> error + SCData list" where
  "getScDataForEvent rt w optionsObj evId =
     andThen (getNumRounds w evId) (\<lambda>n. roundsLoop rt w optionsObj evId 1 n [])"

section \<open>Laying out the pages (sc\_pdf.js)\<close>

definition getScPdfDataForEvent ::
    "runtime \<Rightarrow> WCIF \<Rightarrow> (string \<rightharpoonup> Option) \<Rightarrow> string \<Rightarrow> error + SCPDFData list" where
  "getScPdfDataForEvent rt w optionsObj evId =
     andThen (getScDataForEvent rt w optionsObj evId) (mapE fromScData)"

text \<open>
  The PDF document, as far as the layout code drives it: the number of pages (a new
  document has one), the page selected by \<open>setPage\<close>, the page size, and what was drawn
  on which page, in order. Drawing a scorecard is recorded with its page and the
  coordinates of its corner; the text measurements the drawing functions make, and the
  errors they throw when a text does not fit, belong to the PDF library and are not
  modelled. The console is the list of warnings logged.
\<close>

datatype drawing = CutLines nat | Scorecard nat int int SCPDFData

record Doc =
  numPages :: nat
  currentPage :: nat
  pageWidth :: int
  pageHeight :: int
  drawn :: "drawing list"
  console :: "string list"

text \<open>
  A new document in the letter format, in points: 612 by 792, one page. Both sizes are
  even, so the centre coordinates are whole.
\<close>

definition newDoc :: Doc where
  "newDoc = \<lparr>numPages = 1, currentPage = 1, pageWidth = 612, pageHeight = 792,
             drawn = [], console = []\<rparr>"

definition addPage :: "Doc \<Rightarrow> Doc" where
  "addPage doc = doc\<lparr>numPages := numPages doc + 1, currentPage := numPages doc + 1\<rparr>"

definition setPage :: "nat \<Rightarrow> Doc \<Rightarrow> Doc" where
  "setPage n doc = doc\<lparr>currentPage := n\<rparr>"

definition drawCutLines :: "Doc \<Rightarrow> Doc" where
  "drawCutLines doc = doc\<lparr>drawn := drawn doc @ [CutLines (currentPage doc)]\<rparr>"

text \<open>
  \<open>drawScorecard\<close> looks the drawing function up by the record's type; there is one for
  competitor records and one for round blanks, and calling the missing entry of any other
  type throws a TypeError.
\<close>

definition drawScorecard :: "Doc \<Rightarrow> SCPDFData \<Rightarrow> int \<Rightarrow> int \<Rightarrow> error + Doc" where
  "drawScorecard doc scPdfData x y =
     (if pdf_type scPdfData = Val competitor \<or> pdf_type scPdfData = Val roundBlank
      then Inr (doc\<lparr>drawn := drawn doc @ [Scorecard (currentPage doc) x y scPdfData]\<rparr>)
      else Inl TypeError)"

text \<open>The loop of \<open>draw4Scorecards\<close> over the indices \<open>i, i + 1, ...\<close> of the subset.\<close>

function drawLoop :: "Doc \<Rightarrow> SCPDFData list \<Rightarrow> (int \<times> int) list \<Rightarrow> nat \<Rightarrow> error + Doc" where
  "drawLoop doc scPdfSubset coords i =
     (if i < length scPdfSubset
      then (case element coords i of
              Val (x, y) \<Rightarrow>
                (case drawScorecard doc (scPdfSubset ! i) x y of
                   Inl e \<Rightarrow> Inl e
                 | Inr doc' \<Rightarrow> drawLoop doc' scPdfSubset coords (i + 1))
            | _ \<Rightarrow> Inl TypeError)
      else Inr doc)"
  by pat_completeness auto
termination
  by (relation "measure (\<lambda>(doc, scPdfSubset, coords, i). length scPdfSubset - i)") auto

declare drawLoop.simps [simp del]

definition subsetWarning :: "string jsval \<Rightarrow> nat \<Rightarrow> string" where
  "subsetWarning eventAndRound n =
     ''Warning: '' @ template id eventAndRound @ '': length of scPdfSubset is '' @ decimal n @
     '' instead of 4. Did you mean to add blank scorecards to the end?''"

definition draw4Scorecards :: "Doc \<Rightarrow> SCPDFData list \<Rightarrow> error + Doc" where
  "draw4Scorecards doc scPdfSubset =
     andThen
       (if length scPdfSubset < 4
        then (case element scPdfSubset 0 of
                Val first \<Rightarrow>
                  Inr (doc\<lparr>console := console doc @
                         [subsetWarning (eventAndRoundText first) (length scPdfSubset)]\<rparr>)
              | _ \<Rightarrow> Inl TypeError)
        else if length scPdfSubset > 4 then Inl SubsetLengthError
        else Inr doc)
       (\<lambda>doc1.
          let xCenter = pageWidth doc1 div 2;
              yCenter = pageHeight doc1 div 2;
              coords = [(0, 0), (xCenter, 0), (0, yCenter), (xCenter, yCenter)]
          in drawLoop doc1 scPdfSubset coords 0)"

text \<open>
  The two loops of \<open>genScPdfEvent\<close>. Their bounds are the quotients
  \<open>scPdfArr.length / 4 - 1\<close> and \<open>scPdfArr.length / 4\<close>, which need not be whole;
  \<open>i < n / 4 - 1\<close> is \<open>4 * i + 4 < n\<close> and \<open>i < n / 4\<close> is \<open>4 * i < n\<close>.
\<close>

function addPagesLoop :: "Doc \<Rightarrow> nat \<Rightarrow> nat \<Rightarrow> Doc" where
  "addPagesLoop doc n i = (if 4 * i + 4 < n then addPagesLoop (addPage doc) n (i + 1) else doc)"
  by pat_completeness auto
termination
  by (relation "measure (\<lambda>(doc, n, i). n - 4 * i)") auto

declare addPagesLoop.simps [simp del]

function pagesLoop :: "Doc \<Rightarrow> SCPDFData list \<Rightarrow> nat \<Rightarrow> error + Doc" where
  "pagesLoop doc scPdfArr i =
     (if 4 * i < length scPdfArr
      then (let doc1 = drawCutLines (setPage (i + 1) doc);
                scPdfSubset = sliceOf scPdfArr (int i * 4) ((int i + 1) * 4)
            in case draw4Scorecards doc1 scPdfSubset of
                 Inl e \<Rightarrow> Inl e
               | Inr doc2 \<Rightarrow> pagesLoop doc2 scPdfArr (i + 1))
      else Inr doc)"
  by pat_completeness auto
termination
  by (relation "measure (\<lambda>(doc, scPdfArr, i). length scPdfArr - 4 * i)") auto

declare pagesLoop.simps [simp del]

text \<open>The layout part of \<open>genScPdfEvent\<close>: from the formatted records to the document.\<close>

definition layoutPages :: "SCPDFData list \<Rightarrow> error + Doc" where
  "layoutPages scPdfArr = pagesLoop (addPagesLoop newDoc (length scPdfArr) 0) scPdfArr 0"

text \<open>
  \<open>genScPdfEvent\<close> saves the document under a name made of the competition id and the
  event name; the result is that name with the document.
\<close>

definition genScPdfEvent ::
    "runtime \<Rightarrow> WCIF \<Rightarrow> (string \<rightharpoonup> Option) \<Rightarrow> string \<Rightarrow> error + (string \<times> Doc)" where
  "genScPdfEvent rt w optionsObj evId =
     andThen (getScPdfDataForEvent rt w optionsObj evId) (\<lambda>scPdfArr.
     andThen (layoutPages scPdfArr) (\<lambda>doc.
       case lookup eventIdToName evId of
         Val s \<Rightarrow> Inr (compId w @ ''_'' @ replaceAll CHR '' '' CHR ''_'' s @ ''.pdf'', doc)
       | _ \<Rightarrow> Inl TypeError))"

subsection \<open>The layout in the specification's words\<close>

text \<open>
  For comparison with the loops above: the consecutive chunks of four of a sequence, the
  drawings of a sequence of chunks on consecutive pages (cut lines, then the chunk's
  records at the four quadrant origins in row-major order), and the warnings logged for
  chunks of fewer than four.
\<close>

function chunks4 :: "'a list \<Rightarrow> 'a list list" where
  "chunks4 xs = (if xs = [] then [] else take 4 xs # chunks4 (drop 4 xs))"
  by pat_completeness auto
termination
  by (relation "measure length") auto

declare chunks4.simps [simp del]

definition placements :: "nat \<Rightarrow> int \<Rightarrow> int \<Rightarrow> SCPDFData list \<Rightarrow> drawing list" where
  "placements page xCenter yCenter chunk =
     map (\<lambda>(c, scPdfData). Scorecard page (fst c) (snd c) scPdfData)
       (zip [(0, 0), (xCenter, 0), (0, yCenter), (xCenter, yCenter)] chunk)"

fun pagesOf :: "nat \<Rightarrow> int \<Rightarrow> int \<Rightarrow> SCPDFData list list \<Rightarrow> drawing list" where
  "pagesOf page xCenter yCenter [] = []"
| "pagesOf page xCenter yCenter (chunk # chunks) =
     CutLines page # placements page xCenter yCenter chunk @
     pagesOf (page + 1) xCenter yCenter chunks"

fun warningsOf :: "SCPDFData list list \<Rightarrow> string list" where
  "warningsOf [] = []"
| "warningsOf ([] # chunks) = warningsOf chunks"
| "warningsOf ((first # rest) # chunks) =
     (if length (first # rest) < 4
      then [subsetWarning (eventAndRoundText first) (length (first # rest))]
      else []) @ warningsOf chunks"

text \<open>A record that \<open>drawScorecard\<close> has a drawing function for.\<close>

definition drawable :: "SCPDFData \<Rightarrow> bool" where
  "drawable scPdfData =
     (pdf_type scPdfData = Val competitor \<or> pdf_type scPdfData = Val roundBlank)"

section \<open>Example inputs\<close>

text \<open>The code units of an ASCII literal.\<close>

definition ascii :: "string \<Rightarrow> 16 word list" where
  "ascii s = map of_char s"

text \<open>A competitor record: round 1 of 2 of 3x3x3 Cube, average of 5, with a cutoff.\<close>

definition exampleScData :: SCData where
  "exampleScData =
     \<lparr>compName = ''Example Open 2026'', registrantId = Some 7, newCompetitor = Some False,
      wcaId = Some ''2015EXAM01'', personName = Some (ascii ''Jason Chang''),
      eventId = ''333'', eventName = Val ''3x3x3 Cube'', roundNum = 1, numRounds = 2,
      format = ''a'', cutoffCentisec = Some 7000, cutoffAttempts = Some 2,
      timeLimit = Some 60000, cumulRoundInfos = [], groupNum = Val (Num 1),
      groupRoom = Some ''Main'', numRooms = Some 1, scType = competitor\<rparr>"

definition cumul444bf :: CumulRoundInfo where
  "cumul444bf =
     \<lparr>cri_eventId = ''444bf'', cri_eventName = Val ''4x4x4 Blindfolded'',
      cri_round = Num 1, cri_numRounds = 1\<rparr>"

definition cumul555bf :: CumulRoundInfo where
  "cumul555bf =
     \<lparr>cri_eventId = ''555bf'', cri_eventName = Val ''5x5x5 Blindfolded'',
      cri_round = Num 1, cri_numRounds = 1\<rparr>"

definition cumul333bf :: CumulRoundInfo where
  "cumul333bf =
     \<lparr>cri_eventId = ''333bf'', cri_eventName = Val ''3x3x3 Blindfolded'',
      cri_round = Num 1, cri_numRounds = 2\<rparr>"

text \<open>
  A runtime for the closed examples. Its \<open>Number\<close> reads \<open>undefined\<close> as \<open>NaN\<close>,
  \<open>null\<close> as 0 and a non-empty string of decimal digits as its value, as the built-in
  does; the examples apply it to nothing else. Its product is the exact value of
  \<open>floor(n * pct / 100)\<close>, which the floating-point computation gives for the numbers
  of the examples (4 and 75).
\<close>

definition decimalNumber :: "string jsval \<Rightarrow> jsnumber" where
  "decimalNumber v =
     (case v of
        Undefined \<Rightarrow> NaN
      | Null \<Rightarrow> Num 0
      | Val s \<Rightarrow>
          if s \<noteq> [] \<and> list_all (\<lambda>c. c \<in> set ''0123456789'') s
          then Num (int (foldl (\<lambda>acc c. 10 * acc + (of_char c - 48)) 0 s))
          else NaN)"

definition exactFloorPercent :: "jsnumber \<Rightarrow> nat \<Rightarrow> jsnumber" where
  "exactFloorPercent n pct = (case n of NaN \<Rightarrow> NaN | Num k \<Rightarrow> Num (k * int pct div 100))"

definition exampleRuntime :: runtime where
  "exampleRuntime = \<lparr>rt_Number = decimalNumber, rt_floorPercent = exactFloorPercent\<rparr>"

text \<open>
  A competition with one room. Round 1 of 3x3x3 Cube has one group with four competitors
  assigned and sends 75 percent on to round 2, which has no groups yet. The multi-blind
  round declares a cutoff in the document, and competitor 1 is assigned to its group.
\<close>

definition examplePerson :: "nat \<Rightarrow> Assignment list \<Rightarrow> Person" where
  "examplePerson regId asg =
     \<lparr>p_registrantId = regId, p_name = ascii ''Jason Chang'', p_wcaId = Some ''2015EXAM01'',
      p_registration = Some \<lparr>reg_status = ''accepted'', reg_isCompeting = True\<rparr>,
      p_assignments = asg\<rparr>"

definition competesIn :: "nat \<Rightarrow> Assignment" where
  "competesIn actId = \<lparr>as_activityId = actId, as_assignmentCode = ''competitor''\<rparr>"

definition exampleEventsWith :: "AdvancementCondition \<Rightarrow> Event list" where
  "exampleEventsWith adv =
     [\<lparr>ev_id = ''333'', ev_rounds =
         [\<lparr>rd_id = ''333-r1'', rd_format = ''a'', rd_cutoff = None,
           rd_timeLimit = Some \<lparr>tl_centiseconds = 60000, tl_cumulativeRoundIds = []\<rparr>,
           rd_advancementCondition = Some adv\<rparr>,
          \<lparr>rd_id = ''333-r2'', rd_format = ''a'', rd_cutoff = None,
           rd_timeLimit = Some \<lparr>tl_centiseconds = 60000, tl_cumulativeRoundIds = []\<rparr>,
           rd_advancementCondition = None\<rparr>]\<rparr>,
      \<lparr>ev_id = ''333mbf'', ev_rounds =
         [\<lparr>rd_id = ''333mbf-r1'', rd_format = ''3'',
           rd_cutoff = Some \<lparr>co_numberOfAttempts = 2, co_attemptResult = 6000\<rparr>,
           rd_timeLimit = None, rd_advancementCondition = None\<rparr>]\<rparr>]"

definition exampleEvents :: "Event list" where
  "exampleEvents = exampleEventsWith \<lparr>adv_type = ''percent'', adv_level = 75\<rparr>"

definition exampleVenues :: "Venue list" where
  "exampleVenues =
     [\<lparr>venue_rooms =
         [\<lparr>room_name = ''Main'', room_activities =
             [\<lparr>act_activityCode = ''333-r1'', act_childActivities =
                 [\<lparr>ca_id = 11, ca_activityCode = ''333-r1-g1''\<rparr>]\<rparr>,
              \<lparr>act_activityCode = ''333mbf-r1-a1'', act_childActivities =
                 [\<lparr>ca_id = 21, ca_activityCode = ''333mbf-r1-g1-a1''\<rparr>]\<rparr>]\<rparr>]\<rparr>]"

definition exampleWcif :: WCIF where
  "exampleWcif =
     \<lparr>compId = ''ExampleOpen2026'', data_name = ''Example Open 2026'',
      data_events = exampleEvents,
      data_persons =
        [examplePerson 1 [competesIn 11, competesIn 21], examplePerson 2 [competesIn 11],
         examplePerson 3 [competesIn 11], examplePerson 4 [competesIn 11]],
      data_venues = exampleVenues\<rparr>"

text \<open>
  The submitted options: no page of blanks for any round, and the abbreviation \<open>M\<close>
  for the room.
\<close>

definition exampleOption :: "string \<Rightarrow> string \<Rightarrow> string \<Rightarrow> Option" where
  "exampleOption kind ident v = \<lparr>inputType = kind, opt_id = ident, opt_value = Val v\<rparr>"

definition exampleOptions :: "string \<rightharpoonup> Option" where
  "exampleOptions =
     map_of
       [(''blanks-round-333-r1'', exampleOption ''number'' ''blanks-round-333-r1'' ''0''),
        (''blanks-round-333-r2'', exampleOption ''number'' ''blanks-round-333-r2'' ''0''),
        (''blanks-round-333mbf-r1'', exampleOption ''number'' ''blanks-round-333mbf-r1'' ''0''),
        (''room-abbr-Main'', exampleOption ''text'' ''room-abbr-Main'' ''M'')]"

text \<open>
  A competition with 80 accepted, competing registrants and a first round of 3x3x3 Cube,
  before any group is scheduled.
\<close>

definition registeredWcif :: WCIF where
  "registeredWcif =
     \<lparr>compId = ''ExampleOpen2026'', data_name = ''Example Open 2026'',
      data_events = exampleEvents,
      data_persons = map (\<lambda>i. examplePerson i []) [1..<81],
      data_venues = [\<lparr>venue_rooms = [\<lparr>room_name = ''Main'', room_activities = []\<rparr>]\<rparr>]\<rparr>"


text \<open>The round-blank record of round 1 of 3x3x3 Cube in the example competition.\<close>

definition exampleRoundBlank :: SCData where
  "exampleRoundBlank =
     \<lparr>compName = ''Example Open 2026'', registrantId = None, newCompetitor = None,
      wcaId = None, personName = None, eventId = ''333'', eventName = Val ''3x3x3 Cube'',
      roundNum = 1, numRounds = 2, format = ''a'', cutoffCentisec = None,
      cutoffAttempts = None, timeLimit = Some 60000, cumulRoundInfos = [],
      groupNum = Null, groupRoom = None, numRooms = None, scType = roundBlank\<rparr>"


text \<open>The records of the example competition's competitors in round 1 of 3x3x3 Cube.\<close>

definition exampleCompetitor :: "nat \<Rightarrow> SCData" where
  "exampleCompetitor regId =
     \<lparr>compName = ''Example Open 2026'', registrantId = Some regId, newCompetitor = Some False,
      wcaId = Some ''2015EXAM01'', personName = Some (ascii ''Jason Chang''),
      eventId = ''333'', eventName = Val ''3x3x3 Cube'', roundNum = 1, numRounds = 2,
      format = ''a'', cutoffCentisec = None, cutoffAttempts = None,
      timeLimit = Some 60000, cumulRoundInfos = [], groupNum = Val (Num 1),
      groupRoom = Some ''Main'', numRooms = Some 1, scType = competitor\<rparr>"

text \<open>The record of competitor 1 in the multi-blind round.\<close>

definition exampleMultiBlind :: SCData where
  "exampleMultiBlind =
     \<lparr>compName = ''Example Open 2026'', registrantId = Some 1, newCompetitor = Some False,
      wcaId = Some ''2015EXAM01'', personName = Some (ascii ''Jason Chang''),
      eventId = ''333mbf'', eventName = Val ''3x3x3 Multi-Blind'', roundNum = 1, numRounds = 1,
      format = ''3'', cutoffCentisec = None, cutoffAttempts = None,
      timeLimit = None, cumulRoundInfos = [], groupNum = Val (Num 1),
      groupRoom = Some ''Main'', numRooms = Some 1, scType = competitor\<rparr>"

text \<open>A formatted round blank, and ten of them as the records of one event.\<close>

definition examplePdfBlank :: SCPDFData where
  "examplePdfBlank =
     newSCPDFData\<lparr>pdf_type := Val roundBlank, pdf_compName := Val ''Example Open 2026'',
       eventAndRoundText := Val ''3x3x3 Cube Round 1''\<rparr>"

definition tenScorecards :: "SCPDFData list" where
  "tenScorecards = replicate 10 examplePdfBlank"

section \<open>Durations: proofs\<close>

lemma decimal_small: "n < 10 \<Longrightarrow> decimal n = [digitChar n]"
  by (simp add: decimal.simps)

lemma decimal_large: "10 \<le> n \<Longrightarrow> decimal n = decimal (n div 10) @ [digitChar (n mod 10)]"
  by (subst decimal.simps) simp

lemma getTimeTextPart_empty_iff: "getTimeTextPart v u = '''' \<longleftrightarrow> v = 0"
  by (simp add: getTimeTextPart_def Let_def)

lemma getTimeTextPart_render: "v \<noteq> 0 \<Longrightarrow> getTimeTextPart v u = renderComponent (v, u)"
  by (simp add: getTimeTextPart_def renderComponent_def Let_def)

lemma filter_parts:
  "filter (\<lambda>x. x \<noteq> '''') (map (\<lambda>x. getTimeTextPart (fst x) (snd x)) ps) =
   map renderComponent (filter (\<lambda>c. fst c \<noteq> 0) ps)"
  by (induction ps) (auto simp: getTimeTextPart_empty_iff getTimeTextPart_render)

lemma getTimeText_humanDuration: "getTimeText cs = humanDuration cs"
  unfolding getTimeText_def humanDuration_def Let_def
  by (simp only: filter_parts) simp

lemma renderComponent_nonempty: "renderComponent c \<noteq> ''''"
  by (simp add: renderComponent_def)

lemma join_empty_iff: "(\<And>x. x \<in> set xs \<Longrightarrow> x \<noteq> '''') \<Longrightarrow> join sep xs = '''' \<longleftrightarrow> xs = []"
  by (induction sep xs rule: join.induct) auto

lemma components_zero_iff:
  "(100 * (cs div 360000) = 0 \<and> 100 * (cs div 6000 mod 60) = 0 \<and> cs mod 6000 = 0) \<longleftrightarrow> cs = (0::nat)"
proof
  assume h: "100 * (cs div 360000) = 0 \<and> 100 * (cs div 6000 mod 60) = 0 \<and> cs mod 6000 = 0"
  then have "cs < 60 * 6000" by (simp add: div_eq_0_iff)
  then have "cs div 6000 < 60" by (rule less_mult_imp_div_less)
  then have "cs div 6000 = 0" using h by simp
  then have "cs < 6000" by (simp add: div_eq_0_iff)
  then show "cs = 0" using h by simp
next
  assume "cs = 0"
  then show "100 * (cs div 360000) = 0 \<and> 100 * (cs div 6000 mod 60) = 0 \<and> cs mod 6000 = 0"
    by simp
qed

lemma humanDuration_empty_iff: "humanDuration cs = '''' \<longleftrightarrow> cs = 0"
proof -
  let ?ps = "[(100 * (cs div 360000), ''hour''), (100 * (cs div 6000 mod 60), ''minute''),
              (cs mod 6000, ''second'')]"
  have "humanDuration cs = '''' \<longleftrightarrow> filter (\<lambda>c. fst c \<noteq> 0) ?ps = []"
    unfolding humanDuration_def
    by (subst join_empty_iff) (auto simp: renderComponent_nonempty)
  also have "\<dots> \<longleftrightarrow> (100 * (cs div 360000) = 0 \<and> 100 * (cs div 6000 mod 60) = 0 \<and> cs mod 6000 = 0)"
    by (simp add: filter_empty_conv)
  also have "\<dots> \<longleftrightarrow> cs = 0"
    by (rule components_zero_iff)
  finally show ?thesis .
qed

lemmas time_eval =
  getTimeText_def getTimeTextPart_def isInteger_def wholeToString_def toFixed2_def
  decimal_small decimal_large digitChar_def Let_def

text \<open>
  C5. The human-readable duration of a non-negative whole number of centiseconds is the
  specification's rendering: the non-zero ones of hours, minutes and seconds (seconds
  keeping their hundredths), each as value, space and unit, the unit plural unless the
  value is 1, separated by single spaces. The text is empty exactly for a duration of
  zero, and the four documented values are produced.
\<close>

theorem C5_getTimeText:
  "getTimeText cs = humanDuration cs
   \<and> (getTimeText cs = '''' \<longleftrightarrow> cs = 0)
   \<and> getTimeText 0 = ''''
   \<and> getTimeText 100 = ''1 second''
   \<and> getTimeText 6025 = ''1 minute 0.25 seconds''
   \<and> getTimeText 360000 = ''1 hour''"
proof -
  have a: "getTimeText cs = humanDuration cs"
    by (rule getTimeText_humanDuration)
  have b: "getTimeText cs = '''' \<longleftrightarrow> cs = 0"
    by (simp only: getTimeText_humanDuration humanDuration_empty_iff)
  have c: "getTimeText 0 = ''''"
    by (simp add: time_eval)
  have d: "getTimeText 100 = ''1 second''"
    by (simp add: time_eval)
  have e: "getTimeText 6025 = ''1 minute 0.25 seconds''"
    by (simp add: time_eval)
  have f: "getTimeText 360000 = ''1 hour''"
    by (simp add: time_eval)
  from a b c d e f show ?thesis by blast
qed

section \<open>Name splitting: proofs\<close>

lemma indexOf_ge: "indexOf xs c \<ge> - 1"
  by (induction xs) (auto simp: Let_def)

lemma indexOf_absent: "c \<notin> set xs \<Longrightarrow> indexOf xs c = - 1"
  by (induction xs) (auto simp: Let_def)

lemma indexOf_present:
  "c \<in> set xs \<Longrightarrow> indexOf xs c = int (length (takeWhile (\<lambda>x. x \<noteq> c) xs))"
proof (induction xs)
  case Nil
  then show ?case by simp
next
  case (Cons x xs)
  show ?case
  proof (cases "x = c")
    case True
    then show ?thesis by simp
  next
    case False
    with Cons.prems have "c \<in> set xs" by simp
    then have "indexOf xs c = int (length (takeWhile (\<lambda>x. x \<noteq> c) xs))"
      by (rule Cons.IH)
    with False show ?thesis by (simp add: Let_def)
  qed
qed

lemma indexOf_minus1_iff: "indexOf xs c = - 1 \<longleftrightarrow> c \<notin> set xs"
  using indexOf_absent[of c xs] indexOf_present[of c xs] by auto

lemma slice_prefix: "n \<le> length s \<Longrightarrow> sliceOf s 0 (int n) = take n s"
  by (simp add: sliceOf_def Let_def min_def)

lemma slice_after: "n < length s \<Longrightarrow> sliceOf s (int n + 1) (- 1) = butlast (drop (Suc n) s)"
proof -
  assume lt: "n < length s"
  have eq: "nat (int (length s) - 1 - (int n + 1)) = length (drop (Suc n) s) - 1"
    using lt by simp
  have "sliceOf s (int n + 1) (- 1) = take (nat (int (length s) - 1 - (int n + 1))) (drop (nat (int n + 1)) s)"
    using lt by (simp add: sliceOf_def Let_def min_def max_def)
  also have "nat (int n + 1) = Suc n"
    by simp
  finally show ?thesis
    by (simp only: eq butlast_conv_take)
qed

lemma takeWhile_shorter: "c \<in> set xs \<Longrightarrow> length (takeWhile (\<lambda>x. x \<noteq> c) xs) < length xs"
  by (induction xs) auto

lemma drop_Suc_takeWhile: "drop (Suc (length (takeWhile P xs))) xs = tl (dropWhile P xs)"
  by (simp add: dropWhile_eq_drop drop_Suc tl_drop)

lemma setNameData_cases:
  "setNameData name this =
     (if openPar \<in> set (trim name)
      then this\<lparr>personNameRoman := Val (trim (takeWhile (\<lambda>c. c \<noteq> openPar) (trim name))),
                 personNameTrans := Val (butlast (tl (dropWhile (\<lambda>c. c \<noteq> openPar) (trim name))))\<rparr>
      else this\<lparr>personNameRoman := Val (trim name), personNameTrans := Null\<rparr>)"
proof (cases "openPar \<in> set (trim name)")
  case False
  then show ?thesis
    by (simp add: setNameData_def Let_def indexOf_absent)
next
  case True
  let ?n = "length (takeWhile (\<lambda>c. c \<noteq> openPar) (trim name))"
  have i: "indexOf (trim name) openPar = int ?n"
    using True by (rule indexOf_present)
  have lt: "?n < length (trim name)"
    using True by (rule takeWhile_shorter)
  have a: "sliceOf (trim name) 0 (int ?n) = takeWhile (\<lambda>c. c \<noteq> openPar) (trim name)"
    using lt takeWhile_eq_take[of "\<lambda>c. c \<noteq> openPar" "trim name"] by (simp only: slice_prefix less_imp_le)
  have b: "sliceOf (trim name) (int ?n + 1) (- 1) = butlast (tl (dropWhile (\<lambda>c. c \<noteq> openPar) (trim name)))"
    using lt by (simp only: slice_after drop_Suc_takeWhile)
  have ne: "int ?n \<noteq> - 1"
    by simp
  have "setNameData name this =
          this\<lparr>personNameRoman := Val (trim (sliceOf (trim name) 0 (int ?n))),
               personNameTrans := Val (sliceOf (trim name) (int ?n + 1) (- 1))\<rparr>"
    unfolding setNameData_def Let_def i using ne by (simp only: if_False)
  then show ?thesis
    using True by (simp only: a b if_True)
qed

lemmas name_eval =
  ascii_def trim_def isWhiteSpace_def whiteSpace_def openPar_def

lemma openPar_split:
  "c \<in> set xs \<Longrightarrow> xs = takeWhile (\<lambda>x. x \<noteq> c) xs @ c # tl (dropWhile (\<lambda>x. x \<noteq> c) xs)"
  by (induction xs) auto

text \<open>
  C7. Name splitting has no failing branch. Where the trimmed name contains an opening
  parenthesis, the trimmed name is the text before the first one, the parenthesis and the
  text after it; the roman part is the text before, trimmed, and the translated part is
  the text after without its last code unit. Where it contains none, the roman part is
  the trimmed name and the translated part is null. The two documented names split as
  documented.
\<close>

theorem C7_setNameData:
  "personNameRoman (setNameData name this) =
     Val (if openPar \<in> set (trim name)
          then trim (takeWhile (\<lambda>c. c \<noteq> openPar) (trim name))
          else trim name)
   \<and> personNameTrans (setNameData name this) =
     (if openPar \<in> set (trim name)
      then Val (butlast (tl (dropWhile (\<lambda>c. c \<noteq> openPar) (trim name))))
      else Null)
   \<and> (if openPar \<in> set (trim name)
       then trim name = takeWhile (\<lambda>c. c \<noteq> openPar) (trim name) @ openPar #
                          tl (dropWhile (\<lambda>c. c \<noteq> openPar) (trim name))
       else True)
   \<and> setNameData (ascii ''Jason Chang'') this =
       this\<lparr>personNameRoman := Val (ascii ''Jason Chang''), personNameTrans := Null\<rparr>
   \<and> setNameData (ascii ''Jason Chang ('' @ [0x7AE0, 0x7DAD, 0x7950] @ ascii '')'') this =
       this\<lparr>personNameRoman := Val (ascii ''Jason Chang''),
            personNameTrans := Val [0x7AE0, 0x7DAD, 0x7950]\<rparr>"
proof -
  have a: "personNameRoman (setNameData name this) =
     Val (if openPar \<in> set (trim name)
          then trim (takeWhile (\<lambda>c. c \<noteq> openPar) (trim name))
          else trim name)"
    by (simp add: setNameData_cases)
  have b: "personNameTrans (setNameData name this) =
     (if openPar \<in> set (trim name)
      then Val (butlast (tl (dropWhile (\<lambda>c. c \<noteq> openPar) (trim name))))
      else Null)"
    by (simp add: setNameData_cases)
  have c: "if openPar \<in> set (trim name)
       then trim name = takeWhile (\<lambda>c. c \<noteq> openPar) (trim name) @ openPar #
                          tl (dropWhile (\<lambda>c. c \<noteq> openPar) (trim name))
       else True"
    using openPar_split[of openPar "trim name"] by simp
  have d: "setNameData (ascii ''Jason Chang'') this =
       this\<lparr>personNameRoman := Val (ascii ''Jason Chang''), personNameTrans := Null\<rparr>"
    by (simp add: setNameData_def sliceOf_def Let_def name_eval)
  have e: "setNameData (ascii ''Jason Chang ('' @ [0x7AE0, 0x7DAD, 0x7950] @ ascii '')'') this =
       this\<lparr>personNameRoman := Val (ascii ''Jason Chang''),
            personNameTrans := Val [0x7AE0, 0x7DAD, 0x7950]\<rparr>"
    by (simp add: setNameData_def sliceOf_def Let_def name_eval)
  from a b c d e show ?thesis by blast
qed

section \<open>Cutoff: proofs\<close>

lemma formatToAttempts_known:
  "lookup formatToAttempts f = Val (Num tot) \<Longrightarrow> f \<in> set [''a'', ''m'', ''1'', ''2'', ''3'', ''5'']"
  by (simp add: lookup_def formatToAttempts_def split: if_splits)

lemma formatToCutoffAttempts_known:
  "f \<in> set [''a'', ''m'', ''1'', ''2'', ''3'', ''5''] \<Longrightarrow>
   lookup formatToCutoffAttempts f = Null \<or> lookup formatToCutoffAttempts f = Val (Num 2)
   \<or> lookup formatToCutoffAttempts f = Val (Num 1)"
  by (auto simp: lookup_def formatToCutoffAttempts_def)

lemma getCutoffText_1: "getCutoffText (Val (Num 1)) cs = Inr (''Continue if 1 < '' @ getTimeText cs)"
  by (simp add: getCutoffText_def andThen_def)

lemma getCutoffText_2: "getCutoffText (Val (Num 2)) cs = Inr (''Continue if 1 or 2 < '' @ getTimeText cs)"
  by (simp add: getCutoffText_def andThen_def)

lemma getCutoffText_other:
  "a \<noteq> Some 1 \<Longrightarrow> a \<noteq> Some 2 \<Longrightarrow> getCutoffText (count a) cs = Inl AttemptsError"
  by (cases a) (auto simp: getCutoffText_def andThen_def count_def nullable_def)

lemma count_Some: "count (Some k) = Val (Num (int k))"
  by (simp add: count_def nullable_def)

lemma setCutoffData_cutoff1:
  assumes "lookup formatToAttempts (format scData) = Val (Num tot)"
    and "cutoffCentisec scData = Some cs" and "cutoffAttempts scData = Some 1"
  shows "setCutoffData scData this =
           Inr (this\<lparr>attemptsPreCutoff := Val (Num 1), attemptsPostCutoff := Val (Num (tot - 1)),
                     cutoffText := Val (''Continue if 1 < '' @ getTimeText cs)\<rparr>)"
  using assms by (simp add: setCutoffData_def count_Some getCutoffText_1 andThen_def toNumber_def)

lemma setCutoffData_cutoff2:
  assumes "lookup formatToAttempts (format scData) = Val (Num tot)"
    and "cutoffCentisec scData = Some cs" and "cutoffAttempts scData = Some 2"
  shows "setCutoffData scData this =
           Inr (this\<lparr>attemptsPreCutoff := Val (Num 2), attemptsPostCutoff := Val (Num (tot - 2)),
                     cutoffText := Val (''Continue if 1 or 2 < '' @ getTimeText cs)\<rparr>)"
  using assms by (simp add: setCutoffData_def count_Some getCutoffText_2 andThen_def toNumber_def)

lemma setCutoffData_invalid:
  assumes "cutoffCentisec scData = Some cs"
    and "cutoffAttempts scData \<noteq> Some 1" and "cutoffAttempts scData \<noteq> Some 2"
  shows "setCutoffData scData this = Inl AttemptsError"
  using assms by (simp add: setCutoffData_def getCutoffText_other andThen_def Let_def)

lemma setCutoffData_nominal:
  assumes "lookup formatToAttempts (format scData) = Val (Num tot)"
    and "cutoffCentisec scData = None"
    and "lookup formatToCutoffAttempts (format scData) = Val (Num nominal)"
  shows "setCutoffData scData this =
           Inr (this\<lparr>attemptsPreCutoff := Val (Num nominal),
                     attemptsPostCutoff := Val (Num (tot - nominal)), cutoffText := Val ''N/A''\<rparr>)"
  using assms by (simp add: setCutoffData_def toNumber_def)

lemma setCutoffData_disallowed:
  assumes "lookup formatToAttempts (format scData) = Val (Num tot)"
    and "cutoffCentisec scData = None"
    and "lookup formatToCutoffAttempts (format scData) = Null"
  shows "setCutoffData scData this =
           Inr (this\<lparr>attemptsPreCutoff := Val (Num tot), attemptsPostCutoff := Null,
                     cutoffText := Null\<rparr>)"
  using assms by (simp add: setCutoffData_def)

lemma lookup_a: "lookup formatToAttempts ''a'' = Val (Num 5)"
  by (simp add: lookup_def formatToAttempts_def)

lemma time_7000: "getTimeText 7000 = ''1 minute 10 seconds''"
  by (simp add: time_eval)

text \<open>
  C4. For a record whose format is in the attempts table, with \<open>tot\<close> attempts:
  with a cutoff whose threshold is 1 or 2, the pre-cutoff count is the threshold, the
  post-cutoff count is \<open>tot\<close> minus the threshold, and the sentence is
  "Continue if 1 < ..." or "Continue if 1 or 2 < ..." followed by the human-readable
  duration; with a cutoff and any other threshold the setter throws; with no cutoff and a
  nominal count in the second table (2 for \<open>a\<close>, 1 for \<open>m\<close>), the pre-cutoff count
  is the nominal count, the post-cutoff count is \<open>tot\<close> minus it and the sentence is
  "N/A"; with no cutoff and \<open>null\<close> in the second table, the pre-cutoff count is
  \<open>tot\<close> and the other two are null. The second table holds null, 2 or 1 for every
  such format. Format \<open>a\<close> with cutoff 2 attempts, 7000 centiseconds gives 2, 3 and
  "Continue if 1 or 2 < 1 minute 10 seconds".
\<close>

theorem C4_setCutoffData:
  assumes "lookup formatToAttempts (format scData) = Val (Num tot)"
  shows
    "(cutoffCentisec scData = Some cs \<and> cutoffAttempts scData = Some 1 \<longrightarrow>
        setCutoffData scData this =
          Inr (this\<lparr>attemptsPreCutoff := Val (Num 1), attemptsPostCutoff := Val (Num (tot - 1)),
                    cutoffText := Val (''Continue if 1 < '' @ getTimeText cs)\<rparr>))
     \<and> (cutoffCentisec scData = Some cs \<and> cutoffAttempts scData = Some 2 \<longrightarrow>
        setCutoffData scData this =
          Inr (this\<lparr>attemptsPreCutoff := Val (Num 2), attemptsPostCutoff := Val (Num (tot - 2)),
                    cutoffText := Val (''Continue if 1 or 2 < '' @ getTimeText cs)\<rparr>))
     \<and> (cutoffCentisec scData = Some cs \<and> cutoffAttempts scData \<noteq> Some 1
          \<and> cutoffAttempts scData \<noteq> Some 2 \<longrightarrow>
        setCutoffData scData this = Inl AttemptsError)
     \<and> (cutoffCentisec scData = None
          \<and> lookup formatToCutoffAttempts (format scData) = Val (Num nominal) \<longrightarrow>
        setCutoffData scData this =
          Inr (this\<lparr>attemptsPreCutoff := Val (Num nominal),
                    attemptsPostCutoff := Val (Num (tot - nominal)), cutoffText := Val ''N/A''\<rparr>))
     \<and> (cutoffCentisec scData = None
          \<and> lookup formatToCutoffAttempts (format scData) = Null \<longrightarrow>
        setCutoffData scData this =
          Inr (this\<lparr>attemptsPreCutoff := Val (Num tot), attemptsPostCutoff := Null,
                    cutoffText := Null\<rparr>))
     \<and> (lookup formatToCutoffAttempts (format scData) = Null
          \<or> lookup formatToCutoffAttempts (format scData) = Val (Num 2)
          \<or> lookup formatToCutoffAttempts (format scData) = Val (Num 1))
     \<and> lookup formatToCutoffAttempts ''a'' = Val (Num 2)
     \<and> lookup formatToCutoffAttempts ''m'' = Val (Num 1)
     \<and> setCutoffData (scData\<lparr>format := ''a'', cutoffCentisec := Some 7000,
                               cutoffAttempts := Some 2\<rparr>) this =
          Inr (this\<lparr>attemptsPreCutoff := Val (Num 2), attemptsPostCutoff := Val (Num 3),
                    cutoffText := Val ''Continue if 1 or 2 < 1 minute 10 seconds''\<rparr>)"
proof -
  note t = assms
  have c1: "cutoffCentisec scData = Some cs \<and> cutoffAttempts scData = Some 1 \<longrightarrow>
        setCutoffData scData this =
          Inr (this\<lparr>attemptsPreCutoff := Val (Num 1), attemptsPostCutoff := Val (Num (tot - 1)),
                    cutoffText := Val (''Continue if 1 < '' @ getTimeText cs)\<rparr>)"
    using setCutoffData_cutoff1[OF t] by blast
  have c2: "cutoffCentisec scData = Some cs \<and> cutoffAttempts scData = Some 2 \<longrightarrow>
        setCutoffData scData this =
          Inr (this\<lparr>attemptsPreCutoff := Val (Num 2), attemptsPostCutoff := Val (Num (tot - 2)),
                    cutoffText := Val (''Continue if 1 or 2 < '' @ getTimeText cs)\<rparr>)"
    using setCutoffData_cutoff2[OF t] by blast
  have c3: "cutoffCentisec scData = Some cs \<and> cutoffAttempts scData \<noteq> Some 1
          \<and> cutoffAttempts scData \<noteq> Some 2 \<longrightarrow>
        setCutoffData scData this = Inl AttemptsError"
    using setCutoffData_invalid by blast
  have c4: "cutoffCentisec scData = None
          \<and> lookup formatToCutoffAttempts (format scData) = Val (Num nominal) \<longrightarrow>
        setCutoffData scData this =
          Inr (this\<lparr>attemptsPreCutoff := Val (Num nominal),
                    attemptsPostCutoff := Val (Num (tot - nominal)), cutoffText := Val ''N/A''\<rparr>)"
    using setCutoffData_nominal[OF t] by blast
  have c5: "cutoffCentisec scData = None
          \<and> lookup formatToCutoffAttempts (format scData) = Null \<longrightarrow>
        setCutoffData scData this =
          Inr (this\<lparr>attemptsPreCutoff := Val (Num tot), attemptsPostCutoff := Null,
                    cutoffText := Null\<rparr>)"
    using setCutoffData_disallowed[OF t] by blast
  have c6: "lookup formatToCutoffAttempts (format scData) = Null
          \<or> lookup formatToCutoffAttempts (format scData) = Val (Num 2)
          \<or> lookup formatToCutoffAttempts (format scData) = Val (Num 1)"
    using formatToCutoffAttempts_known[OF formatToAttempts_known[OF t]] .
  have c7: "lookup formatToCutoffAttempts ''a'' = Val (Num 2)"
    by (simp add: lookup_def formatToCutoffAttempts_def)
  have c8: "lookup formatToCutoffAttempts ''m'' = Val (Num 1)"
    by (simp add: lookup_def formatToCutoffAttempts_def)
  have c9: "setCutoffData (scData\<lparr>format := ''a'', cutoffCentisec := Some 7000,
                               cutoffAttempts := Some 2\<rparr>) this =
          Inr (this\<lparr>attemptsPreCutoff := Val (Num 2), attemptsPostCutoff := Val (Num 3),
                    cutoffText := Val ''Continue if 1 or 2 < 1 minute 10 seconds''\<rparr>)"
    by (simp add: setCutoffData_cutoff2[where tot = 5 and cs = 7000] lookup_a time_7000)
  from c1 c2 c3 c4 c5 c6 c7 c8 c9 show ?thesis by blast
qed

lemmas cutoff_eval = exampleScData_def lookup_def formatToAttempts_def formatToCutoffAttempts_def

theorem C4_setCutoffData_witness:
  "lookup formatToAttempts (format exampleScData) = Val (Num 5)
   \<and> setCutoffData exampleScData newSCPDFData =
       Inr (newSCPDFData\<lparr>attemptsPreCutoff := Val (Num 2), attemptsPostCutoff := Val (Num 3),
              cutoffText := Val (''Continue if 1 or 2 < '' @ getTimeText 7000)\<rparr>)
   \<and> setCutoffData (exampleScData\<lparr>format := ''m'', cutoffAttempts := Some 1\<rparr>) newSCPDFData =
       Inr (newSCPDFData\<lparr>attemptsPreCutoff := Val (Num 1), attemptsPostCutoff := Val (Num 2),
              cutoffText := Val (''Continue if 1 < '' @ getTimeText 7000)\<rparr>)
   \<and> setCutoffData (exampleScData\<lparr>cutoffAttempts := Some 3\<rparr>) newSCPDFData = Inl AttemptsError
   \<and> setCutoffData (exampleScData\<lparr>cutoffCentisec := None, cutoffAttempts := None\<rparr>) newSCPDFData =
       Inr (newSCPDFData\<lparr>attemptsPreCutoff := Val (Num 2), attemptsPostCutoff := Val (Num 3),
              cutoffText := Val ''N/A''\<rparr>)
   \<and> setCutoffData (exampleScData\<lparr>format := ''3'', cutoffCentisec := None,
                                      cutoffAttempts := None\<rparr>) newSCPDFData =
       Inr (newSCPDFData\<lparr>attemptsPreCutoff := Val (Num 3), attemptsPostCutoff := Null,
              cutoffText := Null\<rparr>)"
proof -
  have h1: "lookup formatToAttempts (format exampleScData) = Val (Num 5)"
    by (simp add: cutoff_eval)
  have h2: "lookup formatToAttempts (format (exampleScData\<lparr>format := ''m'', cutoffAttempts := Some 1\<rparr>)) = Val (Num 3)"
    by (simp add: cutoff_eval)
  have h3: "lookup formatToAttempts (format (exampleScData\<lparr>cutoffAttempts := Some 3\<rparr>)) = Val (Num 5)"
    by (simp add: cutoff_eval)
  have h4: "lookup formatToAttempts (format (exampleScData\<lparr>cutoffCentisec := None, cutoffAttempts := None\<rparr>)) = Val (Num 5)"
    by (simp add: cutoff_eval)
  have h5: "lookup formatToAttempts (format (exampleScData\<lparr>format := ''3'', cutoffCentisec := None,
                                      cutoffAttempts := None\<rparr>)) = Val (Num 3)"
    by (simp add: cutoff_eval)
  have w1: "setCutoffData exampleScData newSCPDFData =
       Inr (newSCPDFData\<lparr>attemptsPreCutoff := Val (Num 2), attemptsPostCutoff := Val (Num 3),
              cutoffText := Val (''Continue if 1 or 2 < '' @ getTimeText 7000)\<rparr>)"
    using C4_setCutoffData[OF h1, of 7000 newSCPDFData 2] by (simp add: exampleScData_def)
  have w2: "setCutoffData (exampleScData\<lparr>format := ''m'', cutoffAttempts := Some 1\<rparr>) newSCPDFData =
       Inr (newSCPDFData\<lparr>attemptsPreCutoff := Val (Num 1), attemptsPostCutoff := Val (Num 2),
              cutoffText := Val (''Continue if 1 < '' @ getTimeText 7000)\<rparr>)"
    using C4_setCutoffData[OF h2, of 7000 newSCPDFData 1] by (simp add: exampleScData_def)
  have w3: "setCutoffData (exampleScData\<lparr>cutoffAttempts := Some 3\<rparr>) newSCPDFData = Inl AttemptsError"
    using C4_setCutoffData[OF h3, of 7000 newSCPDFData 2] by (simp add: exampleScData_def)
  have w4: "setCutoffData (exampleScData\<lparr>cutoffCentisec := None, cutoffAttempts := None\<rparr>) newSCPDFData =
       Inr (newSCPDFData\<lparr>attemptsPreCutoff := Val (Num 2), attemptsPostCutoff := Val (Num 3),
              cutoffText := Val ''N/A''\<rparr>)"
    using C4_setCutoffData[OF h4, of 0 newSCPDFData 2] by (simp add: cutoff_eval)
  have w5: "setCutoffData (exampleScData\<lparr>format := ''3'', cutoffCentisec := None,
                                      cutoffAttempts := None\<rparr>) newSCPDFData =
       Inr (newSCPDFData\<lparr>attemptsPreCutoff := Val (Num 3), attemptsPostCutoff := Null,
              cutoffText := Null\<rparr>)"
    using C4_setCutoffData[OF h5, of 0 newSCPDFData 0] by (simp add: cutoff_eval)
  from h1 w1 w2 w3 w4 w5 show ?thesis by blast
qed

section \<open>Time limit: proofs\<close>

lemma getCumulRoundText_one: "getCumulRoundText [a] = ''''"
  by (simp add: getCumulRoundText_def)

lemma getCumulRoundText_two:
  "getCumulRoundText [a, b] =
     '' for '' @ getEventAndRoundText (cri_eventName a) (cri_round a) (Num (int (cri_numRounds a)))
     @ '' and '' @
     getEventAndRoundText (cri_eventName b) (cri_round b) (Num (int (cri_numRounds b)))"
  by (simp add: getCumulRoundText_def)

lemma getCumulRoundText_many:
  "3 \<le> length infos \<Longrightarrow>
   getCumulRoundText infos = '', shared by '' @ decimal (length infos) @ '' events''"
  by (simp add: getCumulRoundText_def Let_def)

text \<open>
  C6. The multi-blind event gets the label "Time limit per solve" and the fixed sentence.
  Any other event with no cumulative-round reference gets the same label and "DNF if",
  the sign, and the human-readable time limit; with references it gets the label
  "Cumulative time limit" and the human-readable time limit followed by nothing for one
  reference, by " for A and B" with the two event-and-round labels for two, and by
  ", shared by N events" for three or more.
\<close>

theorem C6_setTimeLimitData:
  "(eventId scData = ''333mbf'' \<longrightarrow>
      setTimeLimitData scData this =
        this\<lparr>timeLimitStartText := Val ''Time limit per solve'',
             timeLimitEndText := Val ''10 minutes per cube, up to 1 hour''\<rparr>)
   \<and> (eventId scData \<noteq> ''333mbf'' \<and> cumulRoundInfos scData = [] \<longrightarrow>
      setTimeLimitData scData this =
        this\<lparr>timeLimitStartText := Val ''Time limit per solve'',
             timeLimitEndText :=
               Val (''DNF if '' @ geqSign @ '' '' @ getTimeText (centisecOf (timeLimit scData)))\<rparr>)
   \<and> (eventId scData \<noteq> ''333mbf'' \<and> cumulRoundInfos scData = [a] \<longrightarrow>
      setTimeLimitData scData this =
        this\<lparr>timeLimitStartText := Val ''Cumulative time limit'',
             timeLimitEndText := Val (getTimeText (centisecOf (timeLimit scData)))\<rparr>)
   \<and> (eventId scData \<noteq> ''333mbf'' \<and> cumulRoundInfos scData = [a, b] \<longrightarrow>
      setTimeLimitData scData this =
        this\<lparr>timeLimitStartText := Val ''Cumulative time limit'',
             timeLimitEndText :=
               Val (getTimeText (centisecOf (timeLimit scData)) @ '' for '' @
                    getEventAndRoundText (cri_eventName a) (cri_round a) (Num (int (cri_numRounds a)))
                    @ '' and '' @
                    getEventAndRoundText (cri_eventName b) (cri_round b) (Num (int (cri_numRounds b))))\<rparr>)
   \<and> (eventId scData \<noteq> ''333mbf'' \<and> 3 \<le> length (cumulRoundInfos scData) \<longrightarrow>
      setTimeLimitData scData this =
        this\<lparr>timeLimitStartText := Val ''Cumulative time limit'',
             timeLimitEndText :=
               Val (getTimeText (centisecOf (timeLimit scData)) @ '', shared by '' @
                    decimal (length (cumulRoundInfos scData)) @ '' events'')\<rparr>)"
proof -
  have c1: "eventId scData = ''333mbf'' \<longrightarrow>
      setTimeLimitData scData this =
        this\<lparr>timeLimitStartText := Val ''Time limit per solve'',
             timeLimitEndText := Val ''10 minutes per cube, up to 1 hour''\<rparr>"
    by (simp add: setTimeLimitData_def)
  have c2: "eventId scData \<noteq> ''333mbf'' \<and> cumulRoundInfos scData = [] \<longrightarrow>
      setTimeLimitData scData this =
        this\<lparr>timeLimitStartText := Val ''Time limit per solve'',
             timeLimitEndText :=
               Val (''DNF if '' @ geqSign @ '' '' @ getTimeText (centisecOf (timeLimit scData)))\<rparr>"
    by (simp add: setTimeLimitData_def)
  have c3: "eventId scData \<noteq> ''333mbf'' \<and> cumulRoundInfos scData = [a] \<longrightarrow>
      setTimeLimitData scData this =
        this\<lparr>timeLimitStartText := Val ''Cumulative time limit'',
             timeLimitEndText := Val (getTimeText (centisecOf (timeLimit scData)))\<rparr>"
    by (simp add: setTimeLimitData_def getCumulRoundText_one)
  have c4: "eventId scData \<noteq> ''333mbf'' \<and> cumulRoundInfos scData = [a, b] \<longrightarrow>
      setTimeLimitData scData this =
        this\<lparr>timeLimitStartText := Val ''Cumulative time limit'',
             timeLimitEndText :=
               Val (getTimeText (centisecOf (timeLimit scData)) @ '' for '' @
                    getEventAndRoundText (cri_eventName a) (cri_round a) (Num (int (cri_numRounds a)))
                    @ '' and '' @
                    getEventAndRoundText (cri_eventName b) (cri_round b) (Num (int (cri_numRounds b))))\<rparr>"
    by (simp add: setTimeLimitData_def getCumulRoundText_two)
  have c5: "eventId scData \<noteq> ''333mbf'' \<and> 3 \<le> length (cumulRoundInfos scData) \<longrightarrow>
      setTimeLimitData scData this =
        this\<lparr>timeLimitStartText := Val ''Cumulative time limit'',
             timeLimitEndText :=
               Val (getTimeText (centisecOf (timeLimit scData)) @ '', shared by '' @
                    decimal (length (cumulRoundInfos scData)) @ '' events'')\<rparr>"
    by (auto simp: setTimeLimitData_def getCumulRoundText_many)
  from c1 c2 c3 c4 c5 show ?thesis by blast
qed

lemmas label_eval =
  getEventAndRoundText_def template_def numberToString_def intToString_def
  cumul444bf_def cumul555bf_def cumul333bf_def

theorem C6_setTimeLimitData_witness:
  "setTimeLimitData (exampleScData\<lparr>eventId := ''333mbf'', timeLimit := None\<rparr>) newSCPDFData =
     newSCPDFData\<lparr>timeLimitStartText := Val ''Time limit per solve'',
       timeLimitEndText := Val ''10 minutes per cube, up to 1 hour''\<rparr>
   \<and> setTimeLimitData exampleScData newSCPDFData =
     newSCPDFData\<lparr>timeLimitStartText := Val ''Time limit per solve'',
       timeLimitEndText := Val (''DNF if '' @ geqSign @ '' 10 minutes'')\<rparr>
   \<and> setTimeLimitData (exampleScData\<lparr>cumulRoundInfos := [cumul444bf]\<rparr>) newSCPDFData =
     newSCPDFData\<lparr>timeLimitStartText := Val ''Cumulative time limit'',
       timeLimitEndText := Val ''10 minutes''\<rparr>
   \<and> setTimeLimitData (exampleScData\<lparr>cumulRoundInfos := [cumul444bf, cumul555bf]\<rparr>) newSCPDFData =
     newSCPDFData\<lparr>timeLimitStartText := Val ''Cumulative time limit'',
       timeLimitEndText :=
         Val ''10 minutes for 4x4x4 Blindfolded Final and 5x5x5 Blindfolded Final''\<rparr>
   \<and> setTimeLimitData (exampleScData\<lparr>cumulRoundInfos := [cumul333bf, cumul444bf, cumul555bf]\<rparr>)
       newSCPDFData =
     newSCPDFData\<lparr>timeLimitStartText := Val ''Cumulative time limit'',
       timeLimitEndText := Val ''10 minutes, shared by 3 events''\<rparr>"
proof -
  have t: "getTimeText 60000 = ''10 minutes''"
    by (simp add: time_eval)
  have w1: "setTimeLimitData (exampleScData\<lparr>eventId := ''333mbf'', timeLimit := None\<rparr>) newSCPDFData =
     newSCPDFData\<lparr>timeLimitStartText := Val ''Time limit per solve'',
       timeLimitEndText := Val ''10 minutes per cube, up to 1 hour''\<rparr>"
    using C6_setTimeLimitData[of "exampleScData\<lparr>eventId := ''333mbf'', timeLimit := None\<rparr>" newSCPDFData]
    by simp
  have w2: "setTimeLimitData exampleScData newSCPDFData =
     newSCPDFData\<lparr>timeLimitStartText := Val ''Time limit per solve'',
       timeLimitEndText := Val (''DNF if '' @ geqSign @ '' 10 minutes'')\<rparr>"
    using C6_setTimeLimitData[of exampleScData newSCPDFData]
    by (simp add: exampleScData_def centisecOf_def t)
  have w3: "setTimeLimitData (exampleScData\<lparr>cumulRoundInfos := [cumul444bf]\<rparr>) newSCPDFData =
     newSCPDFData\<lparr>timeLimitStartText := Val ''Cumulative time limit'',
       timeLimitEndText := Val ''10 minutes''\<rparr>"
    using C6_setTimeLimitData[of "exampleScData\<lparr>cumulRoundInfos := [cumul444bf]\<rparr>" newSCPDFData cumul444bf]
    by (simp add: exampleScData_def centisecOf_def t)
  have w4: "setTimeLimitData (exampleScData\<lparr>cumulRoundInfos := [cumul444bf, cumul555bf]\<rparr>) newSCPDFData =
     newSCPDFData\<lparr>timeLimitStartText := Val ''Cumulative time limit'',
       timeLimitEndText :=
         Val ''10 minutes for 4x4x4 Blindfolded Final and 5x5x5 Blindfolded Final''\<rparr>"
    using C6_setTimeLimitData[of "exampleScData\<lparr>cumulRoundInfos := [cumul444bf, cumul555bf]\<rparr>"
        newSCPDFData cumul444bf cumul555bf]
    by (simp add: exampleScData_def centisecOf_def t label_eval)
  have w5: "setTimeLimitData (exampleScData\<lparr>cumulRoundInfos := [cumul333bf, cumul444bf, cumul555bf]\<rparr>)
       newSCPDFData =
     newSCPDFData\<lparr>timeLimitStartText := Val ''Cumulative time limit'',
       timeLimitEndText := Val ''10 minutes, shared by 3 events''\<rparr>"
    using C6_setTimeLimitData[of "exampleScData\<lparr>cumulRoundInfos := [cumul333bf, cumul444bf, cumul555bf]\<rparr>"
        newSCPDFData]
    by (simp add: exampleScData_def centisecOf_def t decimal_small digitChar_def)
  from w1 w2 w3 w4 w5 show ?thesis by blast
qed

section \<open>The document accessor: proofs\<close>

lemma popLoop_Nil: "popLoop rt n [] = n"
  by (simp add: popLoop.simps)




lemma getNum_first: "getNumAdvancingToRound rt w evId 1 = Inr (Val (Num (int (numAssigned w evId 1))))"
  by (simp add: getNumAdvancingToRound_def andThen_def popLoop_Nil)

lemma getNum_assigned:
  "1 \<le> rnd \<Longrightarrow> groupsAreAssigned w evId rnd \<Longrightarrow>
   getNumAdvancingToRound rt w evId rnd = Inr (Val (Num (int (numAssigned w evId rnd))))"
  by (cases rnd) (simp_all add: getNumAdvancingToRound_def andThen_def popLoop_Nil)




section \<open>Multi-blind cutoffs: proofs\<close>

lemma getCutoffCentisec_mbf: "getCutoffCentisec w ''333mbf'' rnd = Inr None"
  by (simp add: getCutoffCentisec_def)

lemma getCutoffAttempts_mbf: "getCutoffAttempts w ''333mbf'' rnd = Inr None"
  by (simp add: getCutoffAttempts_def)

lemma andThen_Inr_iff: "andThen m f = Inr y \<longleftrightarrow> (\<exists>x. m = Inr x \<and> f x = Inr y)"
  by (cases m) (simp_all add: andThen_def)

lemma competitorScData_mbf:
  "competitorScData rt w ''333mbf'' rnd actId regId = Inr sc \<Longrightarrow>
   cutoffCentisec sc = None \<and> cutoffAttempts sc = None"
  unfolding competitorScData_def getCutoffCentisec_mbf getCutoffAttempts_mbf
  by (auto simp: andThen_Inr_iff)

lemma roundBlankScData_mbf:
  "roundBlankScData rt w ''333mbf'' rnd = Inr sc \<Longrightarrow>
   cutoffCentisec sc = None \<and> cutoffAttempts sc = None"
  unfolding roundBlankScData_def getCutoffCentisec_mbf getCutoffAttempts_mbf
  by (auto simp: andThen_Inr_iff)

section \<open>The example competition: evaluation\<close>

lemmas wcif_eval =
  exampleWcif_def exampleEvents_def exampleEventsWith_def exampleVenues_def examplePerson_def competesIn_def
  getGroupActIds_def getActCode_def getTopLevelActObjs_def getRoomObjs_def
  getCompetitorsFromActId_def competingInAct_def decimal_small digitChar_def Let_def

lemma example_numAssigned: "numAssigned exampleWcif ''333'' 1 = 4"
  by (simp add: numAssigned_def wcif_eval)

lemma example_numAssigned2: "numAssigned exampleWcif ''333'' 2 = 0"
  by (simp add: numAssigned_def wcif_eval)

lemma example_assigned: "groupsAreAssigned exampleWcif ''333'' 1"
  unfolding groupsAreAssigned_def example_numAssigned by simp

lemma example_unassigned2: "\<not> groupsAreAssigned exampleWcif ''333'' 2"
  unfolding groupsAreAssigned_def example_numAssigned2 by simp

lemmas round_eval =
  roundProperty_def getRoundObj_def getEventObj_def andThen_def
  exampleWcif_def exampleEvents_def exampleEventsWith_def decimal_small digitChar_def

lemma example_roundBlank: "roundBlankScData rt exampleWcif ''333'' 1 = Inr exampleRoundBlank"
  by (simp add: roundBlankScData_def getNumRounds_def getFormat_def getCutoffCentisec_def
      getCutoffAttempts_def getTimeLimit_def getCumulRoundIds_def getCompName_def
      lookup_def eventIdToName_def exampleRoundBlank_def round_eval)

lemma example_option:
  "exampleOptions (RoundBlanksOption_genId ''333'' 1) =
     Some (exampleOption ''number'' ''blanks-round-333-r1'' ''0'')"
  by (simp add: exampleOptions_def RoundBlanksOption_genId_def decimal_small digitChar_def)

lemma example_value: "rt_Number exampleRuntime (Val ''0'') = Num 0"
  by (simp add: exampleRuntime_def decimalNumber_def)

lemma example_blanks:
  "getScDataForRoundBlanks exampleRuntime exampleWcif exampleOptions ''333'' 1 =
     Inr [exampleRoundBlank, exampleRoundBlank, exampleRoundBlank, exampleRoundBlank]"
proof -
  have n: "getNumAdvancingToRound exampleRuntime exampleWcif ''333'' 1 = Inr (Val (Num 4))"
    unfolding getNum_first example_numAssigned by simp
  have r: "replicate 4 exampleRoundBlank =
      [exampleRoundBlank, exampleRoundBlank, exampleRoundBlank, exampleRoundBlank]"
    by (simp add: numeral_eq_Suc)
  show ?thesis
    unfolding getScDataForRoundBlanks_def Let_def example_option n example_roundBlank
    using example_assigned
    by (simp add: exampleOption_def example_value andThen_def toNumber_def newArray_def r
        del: One_nat_def)
qed

lemmas person_eval =
  personProperty_def getPersonObj_def isNewCompetitor_def getWcaId_def getPersonName_def
  examplePerson_def

lemmas group_eval =
  getGroupNum_def getGroupRoom_def getGroupActObjs_def getTopLevelActObjs_def getRoomObjs_def
  getNumRooms_def roomHasActId_def exampleWcif_def exampleVenues_def split_def element_def
  exampleRuntime_def decimalNumber_def

lemma example_groupNum: "getGroupNum exampleRuntime exampleWcif 11 = Inr (Num 1)"
  by (simp add: group_eval Let_def)

lemma example_groupRoom: "getGroupRoom exampleWcif 11 = Inr ''Main''"
  by (simp add: group_eval)

lemma example_competitor:
  "regId \<in> {1, 2, 3, 4} \<Longrightarrow>
   competitorScData exampleRuntime exampleWcif ''333'' 1 11 regId = Inr (exampleCompetitor regId)"
  unfolding competitorScData_def example_groupNum example_groupRoom
  by (auto simp: person_eval getNumRounds_def getFormat_def getCutoffCentisec_def
      getCutoffAttempts_def getTimeLimit_def getCumulRoundIds_def getCompName_def
      getNumRooms_def getRoomObjs_def exampleVenues_def
      lookup_def eventIdToName_def exampleCompetitor_def round_eval)

lemma example_group:
  "getScDataForGroup exampleRuntime exampleWcif ''333'' 1 11 =
     Inr [exampleCompetitor 1, exampleCompetitor 2, exampleCompetitor 3, exampleCompetitor 4]"
proof -
  have ids: "getCompetitorsFromActId exampleWcif 11 = [1, 2, 3, 4]"
    by (simp add: wcif_eval)
  show ?thesis
    unfolding getScDataForGroup_def ids
    by (simp add: example_competitor andThen_def del: One_nat_def)
qed

lemma example_multiBlind:
  "competitorScData exampleRuntime exampleWcif ''333mbf'' 1 21 1 = Inr exampleMultiBlind"
proof -
  have g: "getGroupNum exampleRuntime exampleWcif 21 = Inr (Num 1)"
    by (simp add: group_eval Let_def)
  have r: "getGroupRoom exampleWcif 21 = Inr ''Main''"
    by (simp add: group_eval)
  show ?thesis
    unfolding competitorScData_def g r getCutoffCentisec_mbf getCutoffAttempts_mbf
    by (simp add: person_eval getNumRounds_def getFormat_def
      getTimeLimit_def getCumulRoundIds_def getCompName_def
      getNumRooms_def getRoomObjs_def exampleVenues_def
      lookup_def eventIdToName_def exampleMultiBlind_def round_eval)
qed

section \<open>Group label: proofs\<close>

lemma andThen_Inr: "andThen (Inr x) f = f x"
  by (simp add: andThen_def)

lemma group_setNameData: "group (setNameData n this) = group this"
  by (simp add: setNameData_def Let_def)

lemma group_setPersonData: "setPersonData scData this = Inr p \<Longrightarrow> group p = group this"
  by (auto simp: setPersonData_def Let_def group_setNameData split: option.splits)

lemma group_setCutoffData: "setCutoffData scData this = Inr p \<Longrightarrow> group p = group this"
  by (auto simp: setCutoffData_def Let_def andThen_Inr_iff split: option.splits if_splits)

lemma group_setEventData: "setEventData scData this = Inr p \<Longrightarrow> group p = group this"
  by (auto simp: setEventData_def andThen_Inr_iff setTimeLimitData_def setEventAndRoundText_def
      dest!: group_setCutoffData)

lemma group_fromScData:
  assumes "fromScData scData = Inr p"
  shows "group p =
           (if scType scData = competitor
            then Val (''undefined'' @ template numberToString (groupNum scData))
            else Undefined)"
proof (cases "scType scData")
  case competitor
  with assms obtain p1 p2 where
    a: "setPersonData scData (newSCPDFData\<lparr>pdf_type := Val competitor, pdf_compName := Val (compName scData)\<rparr>) = Inr p1"
    and b: "setEventData scData p1 = Inr p2" and c: "p = setGroupData scData p2"
    by (auto simp: fromScData_def setCompetitorScData_def andThen_Inr_iff)
  from c competitor show ?thesis
    by (simp add: setGroupData_def groupRoomAbbr_def template_def)
next
  case roundBlank
  with assms have "setEventData scData (newSCPDFData\<lparr>pdf_type := Val roundBlank, pdf_compName := Val (compName scData)\<rparr>) = Inr p"
    by (simp add: fromScData_def setRoundBlankScData_def)
  then have "group p = Undefined"
    by (auto dest!: group_setEventData simp: newSCPDFData_def)
  with roundBlank show ?thesis by simp
next
  case formatBlank
  with assms show ?thesis
    by (auto simp: fromScData_def newSCPDFData_def)
qed

lemma fromScData_succeeds:
  assumes "cutoffCentisec scData = None"
    and "scType scData = competitor \<Longrightarrow> personName scData \<noteq> None"
  shows "\<exists>p. fromScData scData = Inr p"
proof -
  have cut: "\<exists>q. setCutoffData scData this = Inr q" for this
    using assms(1) by (simp add: setCutoffData_def Let_def)
  have ev: "\<exists>q. setEventData scData this = Inr q" for this
    using cut[of "setEventAndRoundText scData this"] by (auto simp: setEventData_def andThen_def)
  show ?thesis
  proof (cases "scType scData")
    case competitor
    with assms(2) obtain n where n: "personName scData = Some n" by auto
    obtain p1 where p1: "setPersonData scData (newSCPDFData\<lparr>pdf_type := Val competitor, pdf_compName := Val (compName scData)\<rparr>) = Inr p1"
      using n by (simp add: setPersonData_def Let_def)
    obtain p2 where p2: "setEventData scData p1 = Inr p2"
      using ev by blast
    show ?thesis
      using competitor p1 p2 by (simp add: fromScData_def setCompetitorScData_def andThen_def)
  next
    case roundBlank
    then show ?thesis
      using ev by (simp add: fromScData_def setRoundBlankScData_def)
  next
    case formatBlank
    then show ?thesis by (simp add: fromScData_def)
  qed
qed

lemma mapE_Inr_iff: "mapE f xs = Inr ys \<longleftrightarrow> list_all2 (\<lambda>x y. f x = Inr y) xs ys"
proof (induction xs arbitrary: ys)
  case Nil
  show ?case by auto
next
  case (Cons x xs)
  show ?case
    by (cases ys) (auto simp: andThen_Inr_iff Cons.IH)
qed

lemma mapE_succeeds: "(\<And>x. x \<in> set xs \<Longrightarrow> \<exists>y. f x = Inr y) \<Longrightarrow> \<exists>ys. mapE f xs = Inr ys"
proof (induction xs)
  case Nil
  show ?case by simp
next
  case (Cons x xs)
  then obtain y ys where "f x = Inr y" and "mapE f xs = Inr ys"
    by (metis list.set_intros(1) list.set_intros(2))
  then show ?case by (simp add: andThen_def)
qed

lemma mapE_groups:
  "mapE fromScData scs = Inr ps \<Longrightarrow>
   map group ps =
     map (\<lambda>sc. if scType sc = competitor
                then Val (''undefined'' @ template numberToString (groupNum sc))
                else Undefined) scs"
  unfolding mapE_Inr_iff
  by (induction scs ps rule: list_all2_induct) (auto dest: group_fromScData)

section \<open>The example competition: the whole event\<close>

lemma example_round1:
  "getScDataForRound exampleRuntime exampleWcif exampleOptions ''333'' 1 =
     Inr [exampleCompetitor 1, exampleCompetitor 2, exampleCompetitor 3, exampleCompetitor 4,
          exampleRoundBlank, exampleRoundBlank, exampleRoundBlank, exampleRoundBlank]"
proof -
  have ids: "getGroupActIds exampleWcif ''333'' 1 = [11]"
    by (simp add: wcif_eval)
  show ?thesis
    unfolding getScDataForRound_def ids example_blanks flatMapE_def
    by (simp add: example_group andThen_def del: One_nat_def)
qed

lemma example_round2:
  "getScDataForRound exampleRuntime exampleWcif exampleOptions ''333'' 2 = Inr []"
proof -
  have ids: "getGroupActIds exampleWcif ''333'' 2 = []"
    by (simp add: wcif_eval)
  have opt: "exampleOptions (RoundBlanksOption_genId ''333'' 2) =
      Some (exampleOption ''number'' ''blanks-round-333-r2'' ''0'')"
    by (simp add: exampleOptions_def RoundBlanksOption_genId_def decimal_small digitChar_def)
  have blank: "\<exists>b. roundBlankScData exampleRuntime exampleWcif ''333'' 2 = Inr b"
    by (simp add: roundBlankScData_def getNumRounds_def getFormat_def getCutoffCentisec_def
      getCutoffAttempts_def getTimeLimit_def getCumulRoundIds_def round_eval)
  then obtain b where b: "roundBlankScData exampleRuntime exampleWcif ''333'' 2 = Inr b" ..
  have blanks: "getScDataForRoundBlanks exampleRuntime exampleWcif exampleOptions ''333'' 2 = Inr []"
    unfolding getScDataForRoundBlanks_def Let_def opt b
    using example_unassigned2
    by (simp add: exampleOption_def example_value andThen_def newArray_def)
  show ?thesis
    unfolding getScDataForRound_def ids blanks flatMapE_def
    by (simp add: andThen_def)
qed

lemma example_event:
  "getScDataForEvent exampleRuntime exampleWcif exampleOptions ''333'' =
     Inr [exampleCompetitor 1, exampleCompetitor 2, exampleCompetitor 3, exampleCompetitor 4,
          exampleRoundBlank, exampleRoundBlank, exampleRoundBlank, exampleRoundBlank]"
proof -
  have n: "getNumRounds exampleWcif ''333'' = Inr 2"
    by (simp add: getNumRounds_def getEventObj_def exampleWcif_def exampleEvents_def
        exampleEventsWith_def)
  have l3: "roundsLoop rt w opts e 3 2 acc = Inr acc" for rt w opts e acc
    by (subst roundsLoop.simps) simp
  have l2: "roundsLoop exampleRuntime exampleWcif exampleOptions ''333'' 2 2 acc = Inr acc" for acc
    by (subst roundsLoop.simps) (simp add: example_round2 l3)
  have l1: "roundsLoop exampleRuntime exampleWcif exampleOptions ''333'' 1 2 [] =
      Inr [exampleCompetitor 1, exampleCompetitor 2, exampleCompetitor 3, exampleCompetitor 4,
          exampleRoundBlank, exampleRoundBlank, exampleRoundBlank, exampleRoundBlank]"
    by (subst roundsLoop.simps) (simp add: example_round1 l2 del: One_nat_def)
  show ?thesis
    unfolding getScDataForEvent_def n by (simp add: andThen_def l1 del: One_nat_def)
qed

lemma example_labels:
  "andThen (getScPdfDataForEvent exampleRuntime exampleWcif exampleOptions ''333'')
     (\<lambda>ps. Inr (map group ps)) =
   Inr [Val ''undefined1'', Val ''undefined1'', Val ''undefined1'', Val ''undefined1'',
        Undefined, Undefined, Undefined, Undefined]"
proof -
  let ?scs = "[exampleCompetitor 1, exampleCompetitor 2, exampleCompetitor 3, exampleCompetitor 4,
          exampleRoundBlank, exampleRoundBlank, exampleRoundBlank, exampleRoundBlank]"
  have "\<exists>p. fromScData sc = Inr p" if "sc \<in> set ?scs" for sc
    using that by (intro fromScData_succeeds) (auto simp: exampleCompetitor_def exampleRoundBlank_def)
  then obtain ps where ps: "mapE fromScData ?scs = Inr ps"
    using mapE_succeeds[of ?scs fromScData] by blast
  have "map group ps =
      [Val ''undefined1'', Val ''undefined1'', Val ''undefined1'', Val ''undefined1'',
        Undefined, Undefined, Undefined, Undefined]"
    unfolding mapE_groups[OF ps]
    by (simp add: exampleCompetitor_def exampleRoundBlank_def template_def numberToString_def
        intToString_def decimal_small digitChar_def)
  then show ?thesis
    unfolding getScPdfDataForEvent_def example_event andThen_Inr ps by simp
qed

section \<open>The deriver and the accessor: results\<close>

lemma remNum_nat: "remNum (Num (int n)) (Num 4) = Num (int (n mod 4))"
  by (cases "n = 0") (simp_all add: zmod_int)

text \<open>
  The number of round blanks, in general: four minus the remainder of the assigned count
  where groups are assigned (so four, not none, at a multiple of four), none where no
  groups are assigned, plus four for each page of the option.
\<close>

theorem getScDataForRoundBlanks_count:
  assumes opt: "optionsObj (RoundBlanksOption_genId evId rnd) = Some opt"
    and val: "rt_Number rt (opt_value opt) = Num (int pages)"
    and blank: "roundBlankScData rt w evId rnd = Inr blank"
    and small: "4 + 4 * pages < 2 ^ 32"
    and rnd: "1 \<le> rnd"
  shows "getScDataForRoundBlanks rt w optionsObj evId rnd =
           Inr (replicate
                  ((if groupsAreAssigned w evId rnd then 4 - numAssigned w evId rnd mod 4 else 0)
                   + 4 * pages) blank)"
proof -
  have arr: "newArray (Num (int k)) = Inr k" if "k < 2 ^ 32" for k
  proof -
    have "int k < 2 ^ 32"
      using that by (metis of_nat_less_iff of_nat_numeral of_nat_power)
    then show ?thesis by (simp add: newArray_def)
  qed
  have pagesNum: "timesNum (rt_Number rt (opt_value opt)) (Num 4) = Num (int (4 * pages))"
    unfolding val by simp
  show ?thesis
  proof (cases "groupsAreAssigned w evId rnd")
    case True
    let ?m = "numAssigned w evId rnd mod 4"
    have n: "getNumAdvancingToRound rt w evId rnd = Inr (Val (Num (int (numAssigned w evId rnd))))"
      using rnd True by (rule getNum_assigned)
    have filler: "minusNum (Num 4) (remNum (toNumber (Val (Num (int (numAssigned w evId rnd))))) (Num 4))
                  = Num (int (4 - ?m))"
      by (simp add: toNumber_def remNum_nat of_nat_diff del: remNum.simps)
    have sum: "plusNum (Num (int (4 - ?m))) (Num (int (4 * pages))) = Num (int (4 - ?m + 4 * pages))"
      by simp
    have len: "newArray (Num (int (4 - ?m + 4 * pages))) = Inr (4 - ?m + 4 * pages)"
      using small by (intro arr) simp
    show ?thesis
      unfolding getScDataForRoundBlanks_def Let_def opt n andThen_Inr
      using True
      by (simp only: if_True andThen_Inr filler option.case pagesNum sum len blank)
  next
    case False
    have sum: "plusNum (Num 0) (Num (int (4 * pages))) = Num (int (0 + 4 * pages))"
      by simp
    have len: "newArray (Num (int (0 + 4 * pages))) = Inr (0 + 4 * pages)"
      using small by (intro arr) simp
    show ?thesis
      unfolding getScDataForRoundBlanks_def Let_def opt
      using False
      by (simp only: if_False andThen_Inr option.case pagesNum sum len blank)
  qed
qed

theorem getScDataForRoundBlanks_count_witness:
  "exampleOptions (RoundBlanksOption_genId ''333'' 1) =
     Some (exampleOption ''number'' ''blanks-round-333-r1'' ''0'')
   \<and> rt_Number exampleRuntime (opt_value (exampleOption ''number'' ''blanks-round-333-r1'' ''0'')) =
       Num (int 0)
   \<and> roundBlankScData exampleRuntime exampleWcif ''333'' 1 = Inr exampleRoundBlank
   \<and> getScDataForRoundBlanks exampleRuntime exampleWcif exampleOptions ''333'' 1 =
       Inr (replicate 4 exampleRoundBlank)"
proof -
  have v: "rt_Number exampleRuntime (opt_value (exampleOption ''number'' ''blanks-round-333-r1'' ''0'')) =
       Num (int 0)"
    by (simp add: exampleOption_def example_value)
  have s: "(4::nat) + 4 * 0 < 2 ^ 32" and r: "(1::nat) \<le> 1"
    by simp_all
  have "getScDataForRoundBlanks exampleRuntime exampleWcif exampleOptions ''333'' 1 =
       Inr (replicate ((if groupsAreAssigned exampleWcif ''333'' 1
                        then 4 - numAssigned exampleWcif ''333'' 1 mod 4 else 0) + 4 * 0)
              exampleRoundBlank)"
    using example_option v example_roundBlank s r by (rule getScDataForRoundBlanks_count)
  then have "getScDataForRoundBlanks exampleRuntime exampleWcif exampleOptions ''333'' 1 =
       Inr (replicate 4 exampleRoundBlank)"
    using example_assigned unfolding example_numAssigned by simp
  with example_option v example_roundBlank show ?thesis by blast
qed

text \<open>
  C1. In the example competition four competitors are assigned to round 1 of 3x3x3 Cube,
  a multiple of 4, and the option asks for 0 pages of blanks; the deriver emits four
  round blanks, a whole page of filler, where the specification has none: the round's
  records are the four competitors and then the four blanks.
\<close>

theorem C1_filler_blanks_at_multiple_of_four:
  "numAssigned exampleWcif ''333'' 1 = 4
   \<and> groupsAreAssigned exampleWcif ''333'' 1
   \<and> exampleOptions (RoundBlanksOption_genId ''333'' 1) =
       Some (exampleOption ''number'' ''blanks-round-333-r1'' ''0'')
   \<and> rt_Number exampleRuntime (opt_value (exampleOption ''number'' ''blanks-round-333-r1'' ''0'')) = Num 0
   \<and> getScDataForRoundBlanks exampleRuntime exampleWcif exampleOptions ''333'' 1 =
       Inr [exampleRoundBlank, exampleRoundBlank, exampleRoundBlank, exampleRoundBlank]
   \<and> getScDataForRound exampleRuntime exampleWcif exampleOptions ''333'' 1 =
       Inr [exampleCompetitor 1, exampleCompetitor 2, exampleCompetitor 3, exampleCompetitor 4,
            exampleRoundBlank, exampleRoundBlank, exampleRoundBlank, exampleRoundBlank]"
proof -
  have v: "rt_Number exampleRuntime (opt_value (exampleOption ''number'' ''blanks-round-333-r1'' ''0'')) = Num 0"
    by (simp add: exampleOption_def example_value)
  from example_numAssigned example_assigned example_option v example_blanks example_round1
  show ?thesis by blast
qed

text \<open>
  C2. Whatever the options hold, the group label of a formatted competitor record is the
  text "undefined" followed by the group number, and a round blank has no label. In the
  example competition the room "Main" has the abbreviation "M" and the competitors are in
  group 1 of that room, yet their labels read "undefined1".
\<close>

theorem C2_group_label_undefined:
  "(case fromScData scData of
      Inl e \<Rightarrow> True
    | Inr p \<Rightarrow>
        group p =
          (if scType scData = competitor
           then Val (''undefined'' @ template numberToString (groupNum scData))
           else Undefined))
   \<and> exampleOptions (RoomOption_genId ''Main'') = Some (exampleOption ''text'' ''room-abbr-Main'' ''M'')
   \<and> getGroupRoom exampleWcif 11 = Inr ''Main''
   \<and> andThen (getScPdfDataForEvent exampleRuntime exampleWcif exampleOptions ''333'')
       (\<lambda>ps. Inr (map group ps)) =
     Inr [Val ''undefined1'', Val ''undefined1'', Val ''undefined1'', Val ''undefined1'',
          Undefined, Undefined, Undefined, Undefined]"
proof -
  have a: "case fromScData scData of
      Inl e \<Rightarrow> True
    | Inr p \<Rightarrow>
        group p =
          (if scType scData = competitor
           then Val (''undefined'' @ template numberToString (groupNum scData))
           else Undefined)"
    using group_fromScData[of scData] by (cases "fromScData scData") simp_all
  have b: "exampleOptions (RoomOption_genId ''Main'') = Some (exampleOption ''text'' ''room-abbr-Main'' ''M'')"
    by (simp add: exampleOptions_def RoomOption_genId_def)
  from a b example_groupRoom example_labels show ?thesis by blast
qed






text \<open>
  C10. For the multi-blind event both cutoff queries return null for every document and
  round, without looking at the document, and a competitor or round-blank record built
  for that event has null in both cutoff fields.
\<close>

theorem C10_multiblind_cutoff_null:
  "getCutoffCentisec w ''333mbf'' rnd = Inr None
   \<and> getCutoffAttempts w ''333mbf'' rnd = Inr None
   \<and> (competitorScData rt w ''333mbf'' rnd actId regId = Inr sc \<longrightarrow>
        cutoffCentisec sc = None \<and> cutoffAttempts sc = None)
   \<and> (roundBlankScData rt w ''333mbf'' rnd = Inr blank \<longrightarrow>
        cutoffCentisec blank = None \<and> cutoffAttempts blank = None)"
  using getCutoffCentisec_mbf[of w rnd] getCutoffAttempts_mbf[of w rnd]
    competitorScData_mbf[of rt w rnd actId regId sc] roundBlankScData_mbf[of rt w rnd blank]
  by blast

theorem C10_multiblind_cutoff_null_witness:
  "roundProperty exampleWcif ''333mbf'' 1 rd_cutoff =
     Inr (Some \<lparr>co_numberOfAttempts = 2, co_attemptResult = 6000\<rparr>)
   \<and> getCutoffCentisec exampleWcif ''333mbf'' 1 = Inr None
   \<and> getCutoffAttempts exampleWcif ''333mbf'' 1 = Inr None
   \<and> competitorScData exampleRuntime exampleWcif ''333mbf'' 1 21 1 = Inr exampleMultiBlind
   \<and> cutoffCentisec exampleMultiBlind = None
   \<and> cutoffAttempts exampleMultiBlind = None"
proof -
  have declared: "roundProperty exampleWcif ''333mbf'' 1 rd_cutoff =
     Inr (Some \<lparr>co_numberOfAttempts = 2, co_attemptResult = 6000\<rparr>)"
    by (simp add: round_eval)
  from declared example_multiBlind
    C10_multiblind_cutoff_null[of exampleWcif 1 exampleRuntime 21 1 exampleMultiBlind]
  show ?thesis by blast
qed

section \<open>Page layout: proofs\<close>

lemma chunks4_Nil: "chunks4 [] = []"
  by (simp add: chunks4.simps)

lemma chunks4_Cons: "xs \<noteq> [] \<Longrightarrow> chunks4 xs = take 4 xs # chunks4 (drop 4 xs)"
  by (subst chunks4.simps) simp

lemma concat_chunks4: "concat (chunks4 xs) = xs"
proof (induction xs rule: chunks4.induct)
  case (1 xs)
  show ?case
  proof (cases "xs = []")
    case True
    then show ?thesis by (simp add: chunks4_Nil)
  next
    case False
    with 1 show ?thesis by (simp add: chunks4_Cons)
  qed
qed

lemma length_chunks4: "length (chunks4 xs) = (length xs + 3) div 4"
proof (induction xs rule: chunks4.induct)
  case (1 xs)
  show ?case
  proof (cases "xs = []")
    case True
    then show ?thesis by (simp add: chunks4_Nil)
  next
    case False
    then have pos: "0 < length xs" by simp
    have "length (chunks4 xs) = Suc ((length xs - 4 + 3) div 4)"
      using 1 False by (simp add: chunks4_Cons)
    also have "\<dots> = (length xs + 3) div 4"
    proof (cases "4 \<le> length xs")
      case True
      then have "length xs + 3 = (length xs - 4 + 3) + 4" by simp
      then have "(length xs + 3) div 4 = ((length xs - 4 + 3) + 4) div 4" by simp
      then show ?thesis by simp
    next
      case False
      then have "length xs - 4 + 3 = 3" by simp
      moreover have "(length xs + 3) div 4 = 1"
      proof -
        have "length xs + 3 = (length xs - 1) + 4" using pos by simp
        then have "(length xs + 3) div 4 = Suc ((length xs - 1) div 4)" by simp
        moreover have "(length xs - 1) div 4 = 0" using False by simp
        ultimately show ?thesis by simp
      qed
      ultimately show ?thesis by simp
    qed
    finally show ?thesis .
  qed
qed

lemma chunks4_sizes: "c \<in> set (chunks4 xs) \<Longrightarrow> 0 < length c \<and> length c \<le> 4"
proof (induction xs rule: chunks4.induct)
  case (1 xs)
  show ?case
  proof (cases "xs = []")
    case True
    with 1 show ?thesis by (simp add: chunks4_Nil)
  next
    case False
    with 1 show ?thesis by (auto simp: chunks4_Cons)
  qed
qed

lemma chunks4_full: "j + 1 < length (chunks4 xs) \<Longrightarrow> length (chunks4 xs ! j) = 4"
proof (induction xs arbitrary: j rule: chunks4.induct)
  case (1 xs)
  show ?case
  proof (cases "xs = []")
    case True
    with 1 show ?thesis by (simp add: chunks4_Nil)
  next
    case False
    note ne = False
    have more: "drop 4 xs \<noteq> []"
    proof
      assume "drop 4 xs = []"
      then have "chunks4 xs = [take 4 xs]" using ne by (simp add: chunks4_Cons chunks4_Nil)
      with 1(2) show False by simp
    qed
    show ?thesis
    proof (cases j)
      case 0
      with ne more show ?thesis by (simp add: chunks4_Cons)
    next
      case (Suc k)
      with 1 ne show ?thesis by (simp add: chunks4_Cons)
    qed
  qed
qed

lemma nat_int_diff: "nat (int b - int a) = b - a"
  by arith

lemma slice_nat: "sliceOf xs (int a) (int b) = take (b - a) (drop a xs)"
proof -
  have "sliceOf xs (int a) (int b) =
          take (nat (int (min b (length xs)) - int (min a (length xs)))) (drop (min a (length xs)) xs)"
    by (simp add: sliceOf_def Let_def min_def)
  also have "\<dots> = take (min b (length xs) - min a (length xs)) (drop (min a (length xs)) xs)"
    by (simp only: nat_int_diff)
  also have "\<dots> = take (b - a) (drop a xs)"
    by (cases "a \<le> length xs"; cases "b \<le> length xs") (simp_all add: min_def)
  finally show ?thesis .
qed

lemma slice_chunk: "sliceOf xs (int i * 4) ((int i + 1) * 4) = take 4 (drop (4 * i) xs)"
proof -
  have a: "int i * 4 = int (4 * i)" and b: "(int i + 1) * 4 = int (4 * i + 4)"
    by simp_all
  show ?thesis
    unfolding a b slice_nat by simp
qed

lemma addPagesLoop_frame:
  "drawn (addPagesLoop doc n i) = drawn doc \<and> console (addPagesLoop doc n i) = console doc
   \<and> pageWidth (addPagesLoop doc n i) = pageWidth doc
   \<and> pageHeight (addPagesLoop doc n i) = pageHeight doc"
proof (induction doc n i rule: addPagesLoop.induct)
  case (1 doc n i)
  show ?case
  proof (cases "4 * i + 4 < n")
    case True
    with 1 show ?thesis by (subst (1 2 3 4) addPagesLoop.simps) (simp add: addPage_def)
  next
    case False
    then show ?thesis by (subst (1 2 3 4) addPagesLoop.simps) simp
  qed
qed

lemma addPagesLoop_numPages:
  "numPages doc = i + 1 \<Longrightarrow> numPages (addPagesLoop doc n i) = max (i + 1) ((n + 3) div 4)"
proof (induction doc n i rule: addPagesLoop.induct)
  case (1 doc n i)
  show ?case
  proof (cases "4 * i + 4 < n")
    case True
    have "numPages (addPage doc) = (i + 1) + 1"
      using 1(2) by (simp add: addPage_def)
    then have "numPages (addPagesLoop (addPage doc) n (i + 1)) = max ((i + 1) + 1) ((n + 3) div 4)"
      using 1(1) True by blast
    moreover have "i + 2 \<le> (n + 3) div 4"
      using True by arith
    ultimately show ?thesis
      using True by (subst addPagesLoop.simps) simp
  next
    case False
    then have "(n + 3) div 4 \<le> i + 1" by arith
    with False 1(2) show ?thesis by (subst addPagesLoop.simps) simp
  qed
qed

lemma drawLoop_drawable:
  assumes "list_all drawable sub4" and "length sub4 \<le> length coords"
  shows "drawLoop doc sub4 coords i =
           Inr (doc\<lparr>drawn := drawn doc @
                  map (\<lambda>(c, scPdfData). Scorecard (currentPage doc) (fst c) (snd c) scPdfData)
                    (drop i (zip coords sub4))\<rparr>)"
  using assms
proof (induction doc sub4 coords i rule: drawLoop.induct)
  case (1 doc sub4 coords i)
  show ?case
  proof (cases "i < length sub4")
    case False
    then show ?thesis by (subst drawLoop.simps) simp
  next
    case True
    then have ic: "i < length coords" using 1(3) by simp
    obtain x y where xy: "coords ! i = (x, y)" by (cases "coords ! i")
    have d: "drawable (sub4 ! i)"
      using 1(2) True by (simp add: list_all_length)
    let ?doc' = "doc\<lparr>drawn := drawn doc @ [Scorecard (currentPage doc) x y (sub4 ! i)]\<rparr>"
    have step: "drawScorecard doc (sub4 ! i) x y = Inr ?doc'"
      using d by (simp add: drawScorecard_def drawable_def)
    have el: "element coords i = Val (x, y)"
      using ic xy by (simp add: element_def)
    have rest: "drawLoop ?doc' sub4 coords (i + 1) =
        Inr (doc\<lparr>drawn := drawn doc @ Scorecard (currentPage doc) x y (sub4 ! i) #
                  map (\<lambda>(c, scPdfData). Scorecard (currentPage doc) (fst c) (snd c) scPdfData)
                    (drop (i + 1) (zip coords sub4))\<rparr>)"
      using 1(1)[OF True el _ step 1(2) 1(3)] by simp
    have dr: "drop i (zip coords sub4) = (coords ! i, sub4 ! i) # drop (i + 1) (zip coords sub4)"
      using True ic by (simp add: Cons_nth_drop_Suc[symmetric])
    show ?thesis
      by (subst drawLoop.simps) (simp add: True el step rest dr xy del: One_nat_def add_Suc_right Suc_eq_plus1)
  qed
qed

lemma draw4Scorecards_drawable:
  assumes "list_all drawable (first # rest)" and "length (first # rest) \<le> 4"
  shows "draw4Scorecards doc (first # rest) =
           Inr (doc\<lparr>console := console doc @ warningsOf [first # rest],
                    drawn := drawn doc @
                      placements (currentPage doc) (pageWidth doc div 2) (pageHeight doc div 2)
                        (first # rest)\<rparr>)"
proof -
  let ?doc1 = "doc\<lparr>console := console doc @ warningsOf [first # rest]\<rparr>"
  have pre: "(if length (first # rest) < 4
        then (case element (first # rest) 0 of
                Val f \<Rightarrow>
                  Inr (doc\<lparr>console := console doc @
                         [subsetWarning (eventAndRoundText f) (length (first # rest))]\<rparr>)
              | _ \<Rightarrow> Inl TypeError)
        else if length (first # rest) > 4 then Inl SubsetLengthError
        else Inr doc) = Inr ?doc1"
    using assms(2) by (auto simp: element_def)
  have loop: "drawLoop ?doc1 (first # rest)
        [(0, 0), (pageWidth ?doc1 div 2, 0), (0, pageHeight ?doc1 div 2),
         (pageWidth ?doc1 div 2, pageHeight ?doc1 div 2)] 0 =
      Inr (?doc1\<lparr>drawn := drawn ?doc1 @
             map (\<lambda>(c, scPdfData). Scorecard (currentPage ?doc1) (fst c) (snd c) scPdfData)
               (drop 0 (zip [(0, 0), (pageWidth ?doc1 div 2, 0), (0, pageHeight ?doc1 div 2),
                  (pageWidth ?doc1 div 2, pageHeight ?doc1 div 2)] (first # rest)))\<rparr>)"
    using assms by (intro drawLoop_drawable) simp_all
  show ?thesis
    unfolding draw4Scorecards_def pre andThen_Inr Let_def loop
    by (simp add: placements_def)
qed

lemma draw4Scorecards_too_long:
  "4 < length scPdfSubset \<Longrightarrow> draw4Scorecards doc scPdfSubset = Inl SubsetLengthError"
  by (simp add: draw4Scorecards_def andThen_def)

lemma pagesLoop_drawable:
  assumes "list_all drawable arr"
  shows "\<exists>doc'. pagesLoop doc arr i = Inr doc'
           \<and> numPages doc' = numPages doc
           \<and> drawn doc' = drawn doc @
               pagesOf (i + 1) (pageWidth doc div 2) (pageHeight doc div 2) (chunks4 (drop (4 * i) arr))
           \<and> console doc' = console doc @ warningsOf (chunks4 (drop (4 * i) arr))
           \<and> pageWidth doc' = pageWidth doc \<and> pageHeight doc' = pageHeight doc"
  using assms
proof (induction doc arr i rule: pagesLoop.induct)
  case (1 doc arr i)
  show ?case
  proof (cases "4 * i < length arr")
    case False
    then have "drop (4 * i) arr = []" by simp
    with False show ?thesis
      by (subst pagesLoop.simps) (simp add: chunks4_Nil)
  next
    case True
    let ?chunk = "take 4 (drop (4 * i) arr)"
    let ?doc1 = "drawCutLines (setPage (i + 1) doc)"
    have ne: "drop (4 * i) arr \<noteq> []" using True by simp
    then obtain first rest where fr: "?chunk = first # rest"
      by (cases ?chunk) auto
    have dch: "list_all drawable (first # rest)"
      using 1(2) unfolding fr[symmetric]
      by (auto simp: list_all_iff dest!: in_set_takeD in_set_dropD)
    have lch: "length (first # rest) \<le> 4"
      unfolding fr[symmetric] by simp
    let ?doc2 = "?doc1\<lparr>console := console ?doc1 @ warningsOf [first # rest],
                    drawn := drawn ?doc1 @
                      placements (currentPage ?doc1) (pageWidth ?doc1 div 2) (pageHeight ?doc1 div 2)
                        (first # rest)\<rparr>"
    have d4: "draw4Scorecards ?doc1 (sliceOf arr (int i * 4) ((int i + 1) * 4)) = Inr ?doc2"
      unfolding slice_chunk fr using dch lch by (rule draw4Scorecards_drawable)
    obtain doc' where
      r: "pagesLoop ?doc2 arr (i + 1) = Inr doc'"
      and np: "numPages doc' = numPages ?doc2"
      and dr: "drawn doc' = drawn ?doc2 @
               pagesOf (i + 1 + 1) (pageWidth ?doc2 div 2) (pageHeight ?doc2 div 2)
                 (chunks4 (drop (4 * (i + 1)) arr))"
      and co: "console doc' = console ?doc2 @ warningsOf (chunks4 (drop (4 * (i + 1)) arr))"
      and pw: "pageWidth doc' = pageWidth ?doc2" and ph: "pageHeight doc' = pageHeight ?doc2"
      using 1(1)[OF True refl refl d4 1(2)] by blast
    have ch: "chunks4 (drop (4 * i) arr) = (first # rest) # chunks4 (drop (4 * (i + 1)) arr)"
      using chunks4_Cons[OF ne] fr by (simp add: add.commute)
    have "pagesLoop doc arr i = Inr doc'"
      by (subst pagesLoop.simps) (simp only: True if_True Let_def d4 sum.case r)
    moreover have "numPages doc' = numPages doc"
      using np by (simp add: drawCutLines_def setPage_def)
    moreover have "drawn doc' = drawn doc @
               pagesOf (i + 1) (pageWidth doc div 2) (pageHeight doc div 2) (chunks4 (drop (4 * i) arr))"
      unfolding dr ch by (simp add: drawCutLines_def setPage_def)
    moreover have "console doc' = console doc @ warningsOf (chunks4 (drop (4 * i) arr))"
      unfolding co ch by (simp add: drawCutLines_def setPage_def)
    moreover have "pageWidth doc' = pageWidth doc \<and> pageHeight doc' = pageHeight doc"
      using pw ph by (simp add: drawCutLines_def setPage_def)
    ultimately show ?thesis by blast
  qed
qed

lemma layoutPages_drawable:
  assumes "list_all drawable arr"
  shows "\<exists>doc. layoutPages arr = Inr doc
           \<and> numPages doc = max 1 ((length arr + 3) div 4)
           \<and> drawn doc = pagesOf 1 306 396 (chunks4 arr)
           \<and> console doc = warningsOf (chunks4 arr)"
proof -
  let ?doc0 = "addPagesLoop newDoc (length arr) 0"
  have np: "numPages ?doc0 = max 1 ((length arr + 3) div 4)"
    using addPagesLoop_numPages[of newDoc 0 "length arr"] by (simp add: newDoc_def)
  have fr: "drawn ?doc0 = [] \<and> console ?doc0 = [] \<and> pageWidth ?doc0 = 612 \<and> pageHeight ?doc0 = 792"
    using addPagesLoop_frame[of newDoc "length arr" 0] by (simp add: newDoc_def)
  from pagesLoop_drawable[OF assms, of ?doc0 0] np fr
  show ?thesis
    unfolding layoutPages_def by auto
qed

section \<open>The records of an event can all be drawn\<close>

lemma pdf_type_setPersonData: "setPersonData scData this = Inr p \<Longrightarrow> pdf_type p = pdf_type this"
  by (auto simp: setPersonData_def setNameData_def Let_def split: option.splits)

lemma pdf_type_setCutoffData: "setCutoffData scData this = Inr p \<Longrightarrow> pdf_type p = pdf_type this"
  by (auto simp: setCutoffData_def Let_def andThen_Inr_iff split: option.splits if_splits)

lemma pdf_type_setEventData: "setEventData scData this = Inr p \<Longrightarrow> pdf_type p = pdf_type this"
  by (auto simp: setEventData_def andThen_Inr_iff setTimeLimitData_def setEventAndRoundText_def
      dest!: pdf_type_setCutoffData)

lemma pdf_type_fromScData: "fromScData scData = Inr p \<Longrightarrow> pdf_type p = Val (scType scData)"
proof (cases "scType scData")
  case competitor
  assume "fromScData scData = Inr p"
  with competitor obtain p1 p2 where
    a: "setPersonData scData (newSCPDFData\<lparr>pdf_type := Val competitor, pdf_compName := Val (compName scData)\<rparr>) = Inr p1"
    and b: "setEventData scData p1 = Inr p2" and c: "p = setGroupData scData p2"
    by (auto simp: fromScData_def setCompetitorScData_def andThen_Inr_iff)
  from pdf_type_setPersonData[OF a] pdf_type_setEventData[OF b] c competitor
  show ?thesis by (simp add: setGroupData_def)
next
  case roundBlank
  assume "fromScData scData = Inr p"
  with roundBlank have "setEventData scData (newSCPDFData\<lparr>pdf_type := Val roundBlank, pdf_compName := Val (compName scData)\<rparr>) = Inr p"
    by (simp add: fromScData_def setRoundBlankScData_def)
  from pdf_type_setEventData[OF this] roundBlank show ?thesis by simp
next
  case formatBlank
  assume "fromScData scData = Inr p"
  with formatBlank show ?thesis by (auto simp: fromScData_def)
qed

lemma scType_competitorScData:
  "competitorScData rt w evId rnd actId regId = Inr sc \<Longrightarrow> scType sc = competitor"
  by (auto simp: competitorScData_def andThen_Inr_iff)

lemma scType_roundBlankScData:
  "roundBlankScData rt w evId rnd = Inr sc \<Longrightarrow> scType sc = roundBlank"
  by (auto simp: roundBlankScData_def andThen_Inr_iff)

lemma mapE_all:
  assumes "mapE f xs = Inr ys" and "\<And>x y. f x = Inr y \<Longrightarrow> P y"
  shows "list_all P ys"
  using assms(1) unfolding mapE_Inr_iff
  by (induction xs ys rule: list_all2_induct) (auto intro: assms(2))

lemma flatMapE_all:
  assumes "flatMapE f xs = Inr ys" and "\<And>x zs. f x = Inr zs \<Longrightarrow> list_all P zs"
  shows "list_all P ys"
proof -
  from assms(1) obtain yss where m: "mapE f xs = Inr yss" and ys: "ys = concat yss"
    by (auto simp: flatMapE_def andThen_Inr_iff)
  have "list_all (list_all P) yss"
    using m assms(2) by (rule mapE_all)
  then show ?thesis
    unfolding ys by (induction yss) auto
qed

lemma getScDataForRound_types:
  assumes "getScDataForRound rt w optionsObj evId rnd = Inr xs"
  shows "list_all (\<lambda>sc. scType sc \<noteq> formatBlank) xs"
proof -
  from assms obtain arr blanks where
    a: "flatMapE (\<lambda>actId. getScDataForGroup rt w evId rnd actId) (getGroupActIds w evId rnd) = Inr arr"
    and b: "getScDataForRoundBlanks rt w optionsObj evId rnd = Inr blanks"
    and xs: "xs = arr @ blanks"
    by (auto simp: getScDataForRound_def andThen_Inr_iff)
  have "list_all (\<lambda>sc. scType sc \<noteq> formatBlank) zs"
    if "getScDataForGroup rt w evId rnd actId = Inr zs" for actId zs
    using that unfolding getScDataForGroup_def
    by (rule mapE_all) (auto dest: scType_competitorScData)
  with a have arr: "list_all (\<lambda>sc. scType sc \<noteq> formatBlank) arr"
    by (rule flatMapE_all)
  from b obtain len blank where
    "roundBlankScData rt w evId rnd = Inr blank" and "blanks = replicate len blank"
    by (auto simp: getScDataForRoundBlanks_def Let_def andThen_Inr_iff split: option.splits)
  then have "list_all (\<lambda>sc. scType sc \<noteq> formatBlank) blanks"
    by (auto simp: list_all_iff dest: scType_roundBlankScData)
  with arr show ?thesis
    unfolding xs by simp
qed

lemma roundsLoop_types:
  "roundsLoop rt w optionsObj evId rnd n acc = Inr xs \<Longrightarrow>
   list_all (\<lambda>sc. scType sc \<noteq> formatBlank) acc \<Longrightarrow>
   list_all (\<lambda>sc. scType sc \<noteq> formatBlank) xs"
proof (induction rt w optionsObj evId rnd n acc rule: roundsLoop.induct)
  case (1 rt w optionsObj evId rnd n acc)
  show ?case
  proof (cases "rnd \<le> n")
    case False
    with 1(2) have "xs = acc" by (subst (asm) roundsLoop.simps) simp
    with 1(3) show ?thesis by simp
  next
    case True
    with 1(2) obtain ys where
      r: "getScDataForRound rt w optionsObj evId rnd = Inr ys"
      and l: "roundsLoop rt w optionsObj evId (rnd + 1) n (acc @ ys) = Inr xs"
      by (subst (asm) roundsLoop.simps) (auto split: sum.splits)
    have "list_all (\<lambda>sc. scType sc \<noteq> formatBlank) (acc @ ys)"
      using 1(3) getScDataForRound_types[OF r] by simp
    with 1(1)[OF True r l] show ?thesis .
  qed
qed

lemma getScPdfDataForEvent_drawable:
  assumes "getScPdfDataForEvent rt w optionsObj evId = Inr scPdfArr"
  shows "list_all drawable scPdfArr"
proof -
  from assms obtain scs n where
    n: "getNumRounds w evId = Inr n"
    and l: "roundsLoop rt w optionsObj evId 1 n [] = Inr scs"
    and m: "mapE fromScData scs = Inr scPdfArr"
    by (auto simp: getScPdfDataForEvent_def getScDataForEvent_def andThen_Inr_iff)
  have ty: "list_all (\<lambda>sc. scType sc \<noteq> formatBlank) scs"
    using roundsLoop_types[OF l] by simp
  have "list_all2 (\<lambda>sc p. fromScData sc = Inr p) scs scPdfArr"
    using m by (simp only: mapE_Inr_iff)
  then show ?thesis
    using ty
  proof (induction scs scPdfArr rule: list_all2_induct)
    case Nil
    show ?case by simp
  next
    case (Cons sc scs p ps)
    from Cons.prems have t: "scType sc \<noteq> formatBlank" and rest: "list_all (\<lambda>sc. scType sc \<noteq> formatBlank) scs"
      by simp_all
    have "pdf_type p = Val (scType sc)"
      using Cons.hyps(1) by (rule pdf_type_fromScData)
    with t have "drawable p"
      by (cases "scType sc") (simp_all add: drawable_def)
    with Cons.IH[OF rest] show ?case by simp
  qed
qed

lemma genScPdfEvent_pages:
  assumes "getScPdfDataForEvent rt w optionsObj evId = Inr scPdfArr"
    and "lookup eventIdToName evId = Val evName"
  shows "\<exists>doc. genScPdfEvent rt w optionsObj evId =
                  Inr (compId w @ ''_'' @ replaceAll CHR '' '' CHR ''_'' evName @ ''.pdf'', doc)
           \<and> numPages doc = max 1 ((length scPdfArr + 3) div 4)
           \<and> drawn doc = pagesOf 1 306 396 (chunks4 scPdfArr)
           \<and> console doc = warningsOf (chunks4 scPdfArr)"
proof -
  from layoutPages_drawable[OF getScPdfDataForEvent_drawable[OF assms(1)]]
  obtain doc where "layoutPages scPdfArr = Inr doc"
    and "numPages doc = max 1 ((length scPdfArr + 3) div 4)"
    and "drawn doc = pagesOf 1 306 396 (chunks4 scPdfArr)"
    and "console doc = warningsOf (chunks4 scPdfArr)"
    by blast
  then show ?thesis
    unfolding genScPdfEvent_def assms andThen_Inr by (simp add: andThen_Inr)
qed

section \<open>Page layout: results\<close>

lemma length_warningsOf_chunks4:
  "length (warningsOf (chunks4 xs)) = (if length xs mod 4 = 0 then 0 else 1)"
proof (induction xs rule: chunks4.induct)
  case (1 xs)
  show ?case
  proof (cases "xs = []")
    case True
    then show ?thesis by (simp add: chunks4_Nil)
  next
    case False
    then obtain first rest where fr: "take 4 xs = first # rest"
      by (cases "take 4 xs") auto
    have ch: "chunks4 xs = (first # rest) # chunks4 (drop 4 xs)"
      using chunks4_Cons[OF False] fr by simp
    have len: "length (first # rest) = min (length xs) 4"
      unfolding fr[symmetric] by simp
    show ?thesis
    proof (cases "4 \<le> length xs")
      case True
      then have "length (first # rest) = 4" using len by simp
      moreover have "length (drop 4 xs) mod 4 = length xs mod 4"
        using True by (simp add: le_mod_geq)
      ultimately show ?thesis
        unfolding ch using 1[OF False] by simp
    next
      case short: False
      then have "drop 4 xs = []" by simp
      moreover have "length (first # rest) < 4" using len short by simp
      moreover have "length xs mod 4 \<noteq> 0" using short False by simp
      ultimately show ?thesis
        unfolding ch by (simp add: chunks4_Nil)
    qed
  qed
qed

text \<open>
  C8. The records of an event, all of a type that has a drawing function, are laid out
  without an error: the document has one page for an empty sequence and otherwise as many
  pages as there are chunks, \<open>ceil(K/4)\<close>; the chunks are the consecutive chunks of four,
  in order, each drawn on its own page, all of them full but possibly the last; and one
  warning is logged exactly when the last chunk is not full. A subset of more than four
  records makes \<open>draw4Scorecards\<close> throw. The formatted records of an event are always
  of such types, so \<open>genScPdfEvent\<close> saves such a document for every event whose records
  can be derived and whose name is known.
\<close>

theorem C8_layoutPages:
  "(list_all drawable scPdfArr \<longrightarrow>
      (\<exists>doc. layoutPages scPdfArr = Inr doc
         \<and> numPages doc = max 1 ((length scPdfArr + 3) div 4)
         \<and> drawn doc = pagesOf 1 306 396 (chunks4 scPdfArr)
         \<and> console doc = warningsOf (chunks4 scPdfArr)))
   \<and> length (chunks4 scPdfArr) = (length scPdfArr + 3) div 4
   \<and> concat (chunks4 scPdfArr) = scPdfArr
   \<and> (\<forall>c \<in> set (chunks4 scPdfArr). 0 < length c \<and> length c \<le> 4)
   \<and> (\<forall>j. j + 1 < length (chunks4 scPdfArr) \<longrightarrow> length (chunks4 scPdfArr ! j) = 4)
   \<and> length (warningsOf (chunks4 scPdfArr)) = (if length scPdfArr mod 4 = 0 then 0 else 1)
   \<and> (4 < length scPdfSubset \<longrightarrow> draw4Scorecards doc0 scPdfSubset = Inl SubsetLengthError)
   \<and> (getScPdfDataForEvent rt w optionsObj evId = Inr scPdfArr
        \<and> lookup eventIdToName evId = Val evName \<longrightarrow>
      (\<exists>doc. genScPdfEvent rt w optionsObj evId =
                Inr (compId w @ ''_'' @ replaceAll CHR '' '' CHR ''_'' evName @ ''.pdf'', doc)
         \<and> numPages doc = max 1 ((length scPdfArr + 3) div 4)
         \<and> drawn doc = pagesOf 1 306 396 (chunks4 scPdfArr)
         \<and> console doc = warningsOf (chunks4 scPdfArr)))"
proof -
  have e: "getScPdfDataForEvent rt w optionsObj evId = Inr scPdfArr
        \<and> lookup eventIdToName evId = Val evName \<longrightarrow>
      (\<exists>doc. genScPdfEvent rt w optionsObj evId =
                Inr (compId w @ ''_'' @ replaceAll CHR '' '' CHR ''_'' evName @ ''.pdf'', doc)
         \<and> numPages doc = max 1 ((length scPdfArr + 3) div 4)
         \<and> drawn doc = pagesOf 1 306 396 (chunks4 scPdfArr)
         \<and> console doc = warningsOf (chunks4 scPdfArr))"
    using genScPdfEvent_pages by blast
  have a: "list_all drawable scPdfArr \<longrightarrow>
      (\<exists>doc. layoutPages scPdfArr = Inr doc
         \<and> numPages doc = max 1 ((length scPdfArr + 3) div 4)
         \<and> drawn doc = pagesOf 1 306 396 (chunks4 scPdfArr)
         \<and> console doc = warningsOf (chunks4 scPdfArr))"
    using layoutPages_drawable by blast
  have b: "\<forall>c \<in> set (chunks4 scPdfArr). 0 < length c \<and> length c \<le> 4"
    using chunks4_sizes by blast
  have c: "\<forall>j. j + 1 < length (chunks4 scPdfArr) \<longrightarrow> length (chunks4 scPdfArr ! j) = 4"
    using chunks4_full by blast
  have d: "4 < length scPdfSubset \<longrightarrow> draw4Scorecards doc0 scPdfSubset = Inl SubsetLengthError"
    using draw4Scorecards_too_long by blast
  from a b c d e length_chunks4[of scPdfArr] concat_chunks4[of scPdfArr]
    length_warningsOf_chunks4[of scPdfArr]
  show ?thesis by blast
qed

lemma chunks4_ten:
  "chunks4 (replicate 10 x) = [replicate 4 x, replicate 4 x, replicate 2 x]"
proof -
  have a: "chunks4 (replicate 2 x) = [replicate 2 x]"
    by (subst chunks4.simps) (simp add: chunks4_Nil)
  have b: "chunks4 (replicate 6 x) = [replicate 4 x, replicate 2 x]"
    by (subst chunks4.simps) (simp add: a)
  show ?thesis
    by (subst chunks4.simps) (simp add: b)
qed

lemma mapE_length: "mapE f xs = Inr ys \<Longrightarrow> length ys = length xs"
  unfolding mapE_Inr_iff by (simp add: list_all2_lengthD)

lemma example_pdf_records:
  "\<exists>ps. getScPdfDataForEvent exampleRuntime exampleWcif exampleOptions ''333'' = Inr ps
        \<and> length ps = 8"
proof -
  let ?scs = "[exampleCompetitor 1, exampleCompetitor 2, exampleCompetitor 3, exampleCompetitor 4,
          exampleRoundBlank, exampleRoundBlank, exampleRoundBlank, exampleRoundBlank]"
  have "\<exists>p. fromScData sc = Inr p" if "sc \<in> set ?scs" for sc
    using that by (intro fromScData_succeeds) (auto simp: exampleCompetitor_def exampleRoundBlank_def)
  then obtain ps where ps: "mapE fromScData ?scs = Inr ps"
    using mapE_succeeds[of ?scs fromScData] by blast
  have "length ps = 8"
    using mapE_length[OF ps] by simp
  moreover have "getScPdfDataForEvent exampleRuntime exampleWcif exampleOptions ''333'' = Inr ps"
    unfolding getScPdfDataForEvent_def example_event andThen_Inr by (rule ps)
  ultimately show ?thesis by blast
qed

theorem C8_layoutPages_witness:
  "list_all drawable tenScorecards
   \<and> length tenScorecards = 10
   \<and> map length (chunks4 tenScorecards) = [4, 4, 2]
   \<and> (\<exists>doc. layoutPages tenScorecards = Inr doc
         \<and> numPages doc = 3
         \<and> drawn doc = pagesOf 1 306 396 (chunks4 tenScorecards)
         \<and> console doc = [subsetWarning (Val ''3x3x3 Cube Round 1'') 2])
   \<and> draw4Scorecards newDoc (replicate 5 examplePdfBlank) = Inl SubsetLengthError
   \<and> (\<exists>doc. genScPdfEvent exampleRuntime exampleWcif exampleOptions ''333'' =
                Inr (''ExampleOpen2026_3x3x3_Cube.pdf'', doc)
         \<and> numPages doc = 2 \<and> console doc = [])"
proof -
  obtain ps where ps: "getScPdfDataForEvent exampleRuntime exampleWcif exampleOptions ''333'' = Inr ps"
    and eight: "length ps = 8"
    using example_pdf_records by blast
  have nm: "lookup eventIdToName ''333'' = Val ''3x3x3 Cube''"
    by (simp add: lookup_def eventIdToName_def)
  have two: "max 1 ((length ps + 3) div 4) = (2::nat)"
    unfolding eight by simp
  have "length (warningsOf (chunks4 ps)) = 0"
    using C8_layoutPages[of ps "[]" newDoc exampleRuntime exampleWcif exampleOptions "''333''"]
    unfolding eight by simp
  then have quiet: "warningsOf (chunks4 ps) = []"
    by simp
  have fname: "compId exampleWcif @ ''_'' @ replaceAll CHR '' '' CHR ''_'' ''3x3x3 Cube'' @ ''.pdf''
      = ''ExampleOpen2026_3x3x3_Cube.pdf''"
    by (simp add: exampleWcif_def replaceAll_def)
  have ev: "\<exists>doc. genScPdfEvent exampleRuntime exampleWcif exampleOptions ''333'' =
                Inr (''ExampleOpen2026_3x3x3_Cube.pdf'', doc)
         \<and> numPages doc = 2 \<and> console doc = []"
    using C8_layoutPages[of ps "[]" newDoc exampleRuntime exampleWcif exampleOptions "''333''"
        "''3x3x3 Cube''"] ps nm
    unfolding two quiet fname by blast
  have dr: "list_all drawable tenScorecards"
    by (simp add: tenScorecards_def list_all_iff drawable_def examplePdfBlank_def)
  have len: "length tenScorecards = 10"
    by (simp add: tenScorecards_def)
  have ch: "chunks4 tenScorecards =
      [replicate 4 examplePdfBlank, replicate 4 examplePdfBlank, replicate 2 examplePdfBlank]"
    unfolding tenScorecards_def by (rule chunks4_ten)
  have sizes: "map length (chunks4 tenScorecards) = [4, 4, 2]"
    unfolding ch by simp
  have warn: "warningsOf (chunks4 tenScorecards) = [subsetWarning (Val ''3x3x3 Cube Round 1'') 2]"
    unfolding ch by (simp add: numeral_eq_Suc examplePdfBlank_def)
  have pages: "max 1 ((length tenScorecards + 3) div 4) = (3::nat)"
    unfolding len by simp
  have five: "4 < length (replicate 5 examplePdfBlank)"
    by simp
  note t = C8_layoutPages[of tenScorecards "replicate 5 examplePdfBlank" newDoc
      exampleRuntime exampleWcif exampleOptions "''333''"]
  have lay: "\<exists>doc. layoutPages tenScorecards = Inr doc
         \<and> numPages doc = 3
         \<and> drawn doc = pagesOf 1 306 396 (chunks4 tenScorecards)
         \<and> console doc = [subsetWarning (Val ''3x3x3 Cube Round 1'') 2]"
    using t dr unfolding pages warn by blast
  have err: "draw4Scorecards newDoc (replicate 5 examplePdfBlank) = Inl SubsetLengthError"
    using t five by blast
  from dr len sizes lay err ev show ?thesis by blast
qed

text \<open>
  An event can have no records: the multi-blind event of the competition without
  groups, with 0 pages of blanks. Its document still has its first page, where
  \<open>ceil(0/4)\<close> is 0.
\<close>

theorem C8_counterexample:
  "getScPdfDataForEvent exampleRuntime registeredWcif exampleOptions ''333mbf'' = Inr []
   \<and> layoutPages [] = Inr newDoc
   \<and> numPages newDoc = 1
   \<and> (length ([] :: SCPDFData list) + 3) div 4 = 0"
proof -
  have n: "getNumRounds registeredWcif ''333mbf'' = Inr 1"
    by (simp add: getNumRounds_def getEventObj_def registeredWcif_def exampleEvents_def
        exampleEventsWith_def)
  have ids: "getGroupActIds registeredWcif ''333mbf'' 1 = []"
    by (simp add: getGroupActIds_def getTopLevelActObjs_def getRoomObjs_def registeredWcif_def)
  have un: "\<not> groupsAreAssigned registeredWcif ''333mbf'' 1"
    unfolding groupsAreAssigned_def numAssigned_def ids by simp
  have opt: "exampleOptions (RoundBlanksOption_genId ''333mbf'' 1) =
      Some (exampleOption ''number'' ''blanks-round-333mbf-r1'' ''0'')"
    by (simp add: exampleOptions_def RoundBlanksOption_genId_def decimal_small digitChar_def)
  have blank: "\<exists>b. roundBlankScData exampleRuntime registeredWcif ''333mbf'' 1 = Inr b"
    by (simp add: roundBlankScData_def getNumRounds_def getFormat_def getCutoffCentisec_def
      getCutoffAttempts_def getTimeLimit_def getCumulRoundIds_def roundProperty_def
      getRoundObj_def getEventObj_def andThen_def registeredWcif_def exampleEvents_def
      exampleEventsWith_def decimal_small digitChar_def)
  then obtain b where b: "roundBlankScData exampleRuntime registeredWcif ''333mbf'' 1 = Inr b" ..
  have blanks: "getScDataForRoundBlanks exampleRuntime registeredWcif exampleOptions ''333mbf'' 1 = Inr []"
    unfolding getScDataForRoundBlanks_def Let_def opt b
    using un
    by (simp add: exampleOption_def example_value andThen_def newArray_def del: One_nat_def)
  have r1: "getScDataForRound exampleRuntime registeredWcif exampleOptions ''333mbf'' 1 = Inr []"
    unfolding getScDataForRound_def ids blanks flatMapE_def by (simp add: andThen_def)
  have l2: "roundsLoop exampleRuntime registeredWcif exampleOptions ''333mbf'' 2 1 [] = Inr []"
    by (subst roundsLoop.simps) simp
  have l1: "roundsLoop exampleRuntime registeredWcif exampleOptions ''333mbf'' 1 1 [] = Inr []"
    by (subst roundsLoop.simps) (simp add: r1 l2 del: One_nat_def)
  have ev: "getScDataForEvent exampleRuntime registeredWcif exampleOptions ''333mbf'' = Inr []"
    unfolding getScDataForEvent_def n andThen_Inr by (rule l1)
  have a: "getScPdfDataForEvent exampleRuntime registeredWcif exampleOptions ''333mbf'' = Inr []"
    unfolding getScPdfDataForEvent_def ev andThen_Inr by simp
  have add: "addPagesLoop newDoc 0 0 = newDoc"
    by (subst addPagesLoop.simps) simp
  have b: "layoutPages [] = Inr newDoc"
    unfolding layoutPages_def by (simp add: add) (subst pagesLoop.simps, simp)
  have c: "numPages newDoc = 1"
    by (simp add: newDoc_def)
  from a b c show ?thesis by simp
qed

section \<open>Option ids: proofs\<close>














section \<open>Further properties\<close>

text \<open>The list of event ids never holds the unsupported 3x3x3 Fewest Moves.\<close>

theorem getEventIds_supported: "''333fm'' \<notin> set (getEventIds w)"
  by (simp add: getEventIds_def)

text \<open>The label of an event and round: "Final" for the last round, the number otherwise.\<close>

theorem label_examples:
  "getEventAndRoundText (Val ''3x3x3 Cube'') (Num 1) (Num 3) = ''3x3x3 Cube Round 1''
   \<and> getEventAndRoundText (Val ''3x3x3 Cube'') (Num 3) (Num 3) = ''3x3x3 Cube Final''"
  by (simp add: getEventAndRoundText_def template_def numberToString_def intToString_def
      decimal_small digitChar_def)

end
